theory Spec2Isabelle
  imports Complex_Main "HOL-Library.Multiset" "HOL-Library.Char_ord" "HOL-Library.List_Lexorder"
    "HOL-Library.Log_Nat"
begin

section \<open>Command line arguments and shared state\<close>

text \<open>
  The script \<^verbatim>\<open>gcp-read.py\<close> counts billable resources of GCP projects. Its
  arguments are parsed once at import time into \<^verbatim>\<open>args\<close>; the fields below are the
  \<^verbatim>\<open>dest\<close> names of the parser (\<^verbatim>\<open>all\<close> and \<^verbatim>\<open>id\<close> are renamed, they clash
  with constants of HOL). Python integers are unbounded: they are \<^typ>\<open>int\<close> here.
\<close>

record args =
  all_projects :: bool
  id_arg :: "string option"
  input_projects :: bool
  input_excluded_folders :: bool
  data_mode :: bool
  images_mode :: bool
  max_image_tags :: int
  max_workers :: int
  debug_mode :: bool
  verbose_mode :: bool

text \<open>
  Exceptions are values. \<open>HttpError\<close> stands for whatever the transport raises from
  \<^verbatim>\<open>request.execute()\<close>, \<open>RequestError\<close> for what \<^verbatim>\<open>build(...)\<close> or the construction
  of a request raises; \<open>StopIteration\<close> is what a scripted remote raises once its script
  is used up (see \<open>response\<close> below).
\<close>

datatype exn =
    HttpError string
  | RequestError string
  | UnboundLocalError string
  | IndexError string
  | ZeroDivisionError string
  | StopIteration

fun str_of :: "exn \<Rightarrow> string" where
  "str_of (HttpError m) = m"
| "str_of (RequestError m) = m"
| "str_of (UnboundLocalError m) = m"
| "str_of (IndexError m) = m"
| "str_of (ZeroDivisionError m) = m"
| "str_of StopIteration = []"

text \<open>
  The module-level globals \<^verbatim>\<open>totals\<close>, \<^verbatim>\<open>totals_log\<close> and \<^verbatim>\<open>errors_log\<close>. The
  dictionary \<^verbatim>\<open>totals\<close> has a fixed set of twelve keys, all initialised to 0, and the
  code only ever reads and writes those keys; it is a total function on key names. A
  row of \<^verbatim>\<open>totals_log\<close> is the list \<^verbatim>\<open>[resource_type, resource_count, project, region]\<close>.
\<close>

type_synonym row = "string \<times> int \<times> string \<times> string"

record state =
  totals :: "string \<Rightarrow> int"
  totals_log :: "row list"
  errors_log :: "string list"

definition initial_state :: state where
  "initial_state = \<lparr>totals = (\<lambda>_. 0), totals_log = [], errors_log = []\<rparr>"

definition enabled :: "args \<Rightarrow> string \<Rightarrow> bool" where
  "enabled a key = (if key = ''Registry Container Images'' then images_mode a else True)"

section \<open>Common library code\<close>

definition progress_print :: "int \<Rightarrow> string \<Rightarrow> string \<Rightarrow> string \<Rightarrow> state \<Rightarrow> state" where
  "progress_print resource_count resource_type project region s =
     s\<lparr>totals_log := totals_log s @ [(resource_type, resource_count, project, region)]\<rparr>"

text \<open>
  \<^verbatim>\<open>error_print\<close> finds the name of its caller with \<^verbatim>\<open>inspect.stack()\<close>; here the
  caller passes its name. Line breaks of the message are replaced by spaces.
\<close>

definition error_line :: "string \<Rightarrow> string \<Rightarrow> string \<Rightarrow> string" where
  "error_line caller details project =
     ''ERROR: '' @ (if project = [] then [] else ''Project: '' @ project @ '' '') @
     caller @ ''() '' @
     map (\<lambda>c. if c = CHR 0x0A \<or> c = CHR 0x0D then CHR '' '' else c) details"

definition error_print :: "string \<Rightarrow> string \<Rightarrow> string \<Rightarrow> state \<Rightarrow> state" where
  "error_print caller details project s =
     s\<lparr>errors_log := errors_log s @ [error_line caller details project]\<rparr>"

definition add_total :: "string \<Rightarrow> int \<Rightarrow> state \<Rightarrow> state" where
  "add_total key n s = s\<lparr>totals := (totals s)(key := totals s key + n)\<rparr>"

section \<open>Remote listings and the pagination loop\<close>

text \<open>
  A remote listing is described the way a test double scripts it: by the outcomes of
  the successive calls of \<^verbatim>\<open>request.execute()\<close>. A call either raises or returns a page;
  a page has a body and says what follows: no \<^verbatim>\<open>nextPageToken\<close>, a token whose
  \<^verbatim>\<open>list_next\<close> request is built, or a token whose \<^verbatim>\<open>list_next\<close> raises. A call
  beyond the end of the script raises \<open>StopIteration\<close>. Before the first call,
  \<^verbatim>\<open>build(...)\<close> or the construction of the first request may raise.
\<close>

datatype next_page = No_token | Token | Token_next_raises exn

datatype 'b response = Page 'b next_page | Execute_raises exn

datatype 'b listing = Build_fails exn | Request_fails exn | Listing "'b response list"

text \<open>
  Every probe drains its listing with the same loop
  (\<^verbatim>\<open>while request is not None: response = request.execute(); ...\<close>). The loop is
  parametrised by what the probe does with the body of a page; that step may itself
  raise. The result is the exception that left the loop (if any), the accumulator as it
  was at that moment, and the number of \<^verbatim>\<open>execute()\<close> calls issued.
\<close>

fun paginate ::
  "('b \<Rightarrow> 'a \<Rightarrow> exn option \<times> 'a) \<Rightarrow> 'b response list \<Rightarrow> 'a \<Rightarrow> nat \<Rightarrow> exn option \<times> 'a \<times> nat" where
  "paginate f [] acc n = (Some StopIteration, acc, Suc n)"
| "paginate f (Execute_raises ex # rs) acc n = (Some ex, acc, Suc n)"
| "paginate f (Page body nxt # rs) acc n =
     (case f body acc of
        (Some ex, acc') \<Rightarrow> (Some ex, acc', Suc n)
      | (None, acc') \<Rightarrow>
          (case nxt of
             No_token \<Rightarrow> (None, acc', Suc n)
           | Token \<Rightarrow> paginate f rs acc' (Suc n)
           | Token_next_raises ex \<Rightarrow> (Some ex, acc', Suc n)))"

text \<open>The page step of the probes that count \<^verbatim>\<open>len(response[key])\<close> when the key is there.\<close>

definition count_items :: "'c list option \<Rightarrow> int \<Rightarrow> exn option \<times> int" where
  "count_items body n = (None, (case body of None \<Rightarrow> n | Some xs \<Rightarrow> n + int (length xs)))"

text \<open>
  The page step of \<^verbatim>\<open>get_gcp_enabled_services\<close> and \<^verbatim>\<open>get_gcp_regions\<close>: the names of
  the items are appended to the result.
\<close>

definition collect_names :: "string list option \<Rightarrow> string list \<Rightarrow> exn option \<times> string list" where
  "collect_names body names = (None, (case body of None \<Rightarrow> names | Some xs \<Rightarrow> names @ xs))"

text \<open>
  A script on which the loop runs to its end: the pages \<open>pre\<close> carry a token, the page
  \<open>lst\<close> carries none; whatever the remote would answer after that is \<open>rest\<close>.
\<close>

definition paged :: "'b list \<Rightarrow> 'b \<Rightarrow> 'b response list \<Rightarrow> 'b response list" where
  "paged pre lst rest = map (\<lambda>b. Page b Token) pre @ Page lst No_token # rest"

text \<open>The items of a sequence of page bodies, a body being the list under its key, if any.\<close>

definition listed :: "'c list option list \<Rightarrow> 'c list" where
  "listed bodies = concat (map (\<lambda>body. case body of None \<Rightarrow> [] | Some xs \<Rightarrow> xs) bodies)"

section \<open>Recording a result\<close>

text \<open>
  Every probe ends with blocks of the form
  \<^verbatim>\<open>if count > 0 or args.verbose_mode: progress_print(...); with totals_lock: totals[...] += ...\<close>.
  There are eleven such blocks in the source; each is one constructor below, with the
  counts and names it uses. \<open>record_result\<close> is the body of the block: the row appended
  by \<^verbatim>\<open>progress_print\<close> and the paired updates of \<^verbatim>\<open>totals\<close>. Both happen under
  locks, so a block acts on the shared state as one step.
\<close>

datatype emission =
    Compute_instances int int int string
  | GKE_hosts int string
  | Cloud_functions int string
  | Cloud_run_revisions int string
  | Autopilot_sensors int string
  | Autopilot_containers int string
  | Registry_images int string string
  | Buckets int string
  | Cloud_sql int string
  | Spanner_databases int string
  | Bigquery_datasets int string

fun record_result :: "emission \<Rightarrow> state \<Rightarrow> state" where
  "record_result (Compute_instances instances_count non_os_disks_count linux_instances_count project_name) s =
     add_total ''Virtual Machine Sensors'' linux_instances_count
       (add_total ''Non-OS Disks'' non_os_disks_count
         (add_total ''Virtual Machines'' instances_count
           (progress_print instances_count ''Virtual Machines [Compute]'' project_name [] s)))"
| "record_result (GKE_hosts gke_instances_count project_name) s =
     add_total ''Kubernetes Sensors'' gke_instances_count
       (add_total ''Container Hosts'' gke_instances_count
         (progress_print gke_instances_count ''Container Hosts [GKE]'' project_name [] s))"
| "record_result (Cloud_functions n project_name) s =
     add_total ''Serverless Functions'' n
       (progress_print n ''Serverless Functions [Cloud Functions]'' project_name [] s)"
| "record_result (Cloud_run_revisions n project_name) s =
     add_total ''Serverless Containers'' n
       (progress_print n ''Serverless Containers [Cloud Run Revisions]'' project_name [] s)"
| "record_result (Autopilot_sensors n project_name) s =
     add_total ''Kubernetes Sensors'' n
       (progress_print n ''Kubernetes Sensors [GKE Autopilot]'' project_name [] s)"
| "record_result (Autopilot_containers n project_name) s =
     add_total ''Serverless Containers'' n
       (progress_print n ''Serverless Containers [GKE Autopilot]'' project_name [] s)"
| "record_result (Registry_images n project_name region) s =
     add_total ''Registry Container Images'' n
       (progress_print n ''Registry Container Images [GAR]'' project_name region s)"
| "record_result (Buckets n project_name) s =
     add_total ''Data Buckets'' n (progress_print n ''Data Buckets'' project_name [] s)"
| "record_result (Cloud_sql n project_name) s =
     add_total ''PaaS Databases'' n
       (progress_print n ''PaaS Databases [Cloud SQL]'' project_name [] s)"
| "record_result (Spanner_databases n project_name) s =
     add_total ''PaaS Databases'' n
       (progress_print n ''PaaS Databases [Spanner]'' project_name [] s)"
| "record_result (Bigquery_datasets n project_name) s =
     add_total ''Data Warehouses'' n
       (progress_print n ''Data Warehouses [BigQuery]'' project_name [] s)"

definition report :: "args \<Rightarrow> int \<Rightarrow> emission \<Rightarrow> state \<Rightarrow> state" where
  "report a n e s = (if n > 0 \<or> verbose_mode a then record_result e s else s)"

text \<open>
  The blocks of \<open>record_result\<close> read as tables: the row a block appends to
  \<^verbatim>\<open>totals_log\<close>, and the increments it applies to \<^verbatim>\<open>totals\<close>.
\<close>

fun logged_row :: "emission \<Rightarrow> row" where
  "logged_row (Compute_instances instances_count non_os_disks_count linux_instances_count project_name) =
     (''Virtual Machines [Compute]'', instances_count, project_name, [])"
| "logged_row (GKE_hosts n project_name) = (''Container Hosts [GKE]'', n, project_name, [])"
| "logged_row (Cloud_functions n project_name) =
     (''Serverless Functions [Cloud Functions]'', n, project_name, [])"
| "logged_row (Cloud_run_revisions n project_name) =
     (''Serverless Containers [Cloud Run Revisions]'', n, project_name, [])"
| "logged_row (Autopilot_sensors n project_name) =
     (''Kubernetes Sensors [GKE Autopilot]'', n, project_name, [])"
| "logged_row (Autopilot_containers n project_name) =
     (''Serverless Containers [GKE Autopilot]'', n, project_name, [])"
| "logged_row (Registry_images n project_name region) =
     (''Registry Container Images [GAR]'', n, project_name, region)"
| "logged_row (Buckets n project_name) = (''Data Buckets'', n, project_name, [])"
| "logged_row (Cloud_sql n project_name) = (''PaaS Databases [Cloud SQL]'', n, project_name, [])"
| "logged_row (Spanner_databases n project_name) =
     (''PaaS Databases [Spanner]'', n, project_name, [])"
| "logged_row (Bigquery_datasets n project_name) =
     (''Data Warehouses [BigQuery]'', n, project_name, [])"

fun increments :: "emission \<Rightarrow> (string \<times> int) list" where
  "increments (Compute_instances instances_count non_os_disks_count linux_instances_count project_name) =
     [(''Virtual Machines'', instances_count), (''Non-OS Disks'', non_os_disks_count),
      (''Virtual Machine Sensors'', linux_instances_count)]"
| "increments (GKE_hosts n project_name) = [(''Container Hosts'', n), (''Kubernetes Sensors'', n)]"
| "increments (Cloud_functions n project_name) = [(''Serverless Functions'', n)]"
| "increments (Cloud_run_revisions n project_name) = [(''Serverless Containers'', n)]"
| "increments (Autopilot_sensors n project_name) = [(''Kubernetes Sensors'', n)]"
| "increments (Autopilot_containers n project_name) = [(''Serverless Containers'', n)]"
| "increments (Registry_images n project_name region) = [(''Registry Container Images'', n)]"
| "increments (Buckets n project_name) = [(''Data Buckets'', n)]"
| "increments (Cloud_sql n project_name) = [(''PaaS Databases'', n)]"
| "increments (Spanner_databases n project_name) = [(''PaaS Databases'', n)]"
| "increments (Bigquery_datasets n project_name) = [(''Data Warehouses'', n)]"

definition increment_of :: "emission \<Rightarrow> string \<Rightarrow> int" where
  "increment_of e r = (\<Sum>p\<leftarrow>increments e. if fst p = r then snd p else 0)"

text \<open>The sum of \<^verbatim>\<open>resource_count\<close> over the rows of the log whose \<^verbatim>\<open>resource_type\<close> is \<open>r\<close>.\<close>

definition logged_sum :: "string \<Rightarrow> row list \<Rightarrow> int" where
  "logged_sum r rows = (\<Sum>row\<leftarrow>rows. if fst row = r then fst (snd row) else 0)"

text \<open>
  The head of every probe: \<^verbatim>\<open>try: client = build(...); request = ...list(...)\<close>,
  \<^verbatim>\<open>except Exception as ex: error_print(ex, project_id); return\<close>.
\<close>

definition open_listing :: "string \<Rightarrow> string \<Rightarrow> 'b listing \<Rightarrow> state \<Rightarrow> state + 'b response list" where
  "open_listing caller project_id api s =
     (case api of
        Build_fails ex \<Rightarrow> Inl (error_print caller (str_of ex) project_id s)
      | Request_fails ex \<Rightarrow> Inl (error_print caller (str_of ex) project_id s)
      | Listing rs \<Rightarrow> Inr rs)"

text \<open>A \<^verbatim>\<open>for\<close> loop whose body may raise: the exception leaves the loop.\<close>

fun for_each :: "('x \<Rightarrow> 'a \<Rightarrow> exn option \<times> 'a) \<Rightarrow> 'x list \<Rightarrow> 'a \<Rightarrow> exn option \<times> 'a" where
  "for_each f [] acc = (None, acc)"
| "for_each f (x # xs) acc =
     (case f x acc of
        (Some ex, acc') \<Rightarrow> (Some ex, acc')
      | (None, acc') \<Rightarrow> for_each f xs acc')"

section \<open>Enabled services and regions\<close>

text \<open>
  In \<^verbatim>\<open>get_gcp_enabled_services\<close> the whole listing is inside \<^verbatim>\<open>try\<close>, so every
  exception is recorded and the names collected so far are returned. The call
  \<^verbatim>\<open>client.close()\<close> stands after the handler: when \<^verbatim>\<open>build\<close> itself raised, the
  local \<^verbatim>\<open>client\<close> is unbound there and the function raises.
\<close>

definition get_gcp_enabled_services ::
  "string \<Rightarrow> string list option listing \<Rightarrow> state \<Rightarrow> exn option \<times> string list \<times> state" where
  "get_gcp_enabled_services project_id api s =
     (case api of
        Build_fails ex \<Rightarrow>
          (Some (UnboundLocalError ''cannot access local variable client''), [],
           error_print ''get_gcp_enabled_services'' (str_of ex) project_id s)
      | Request_fails ex \<Rightarrow>
          (None, [], error_print ''get_gcp_enabled_services'' (str_of ex) project_id s)
      | Listing rs \<Rightarrow>
          (case paginate collect_names rs [] 0 of
             (Some ex, names, _) \<Rightarrow>
               (None, sort names, error_print ''get_gcp_enabled_services'' (str_of ex) project_id s)
           | (None, names, _) \<Rightarrow> (None, sort names, s)))"

definition get_gcp_regions ::
  "string \<Rightarrow> string list option listing \<Rightarrow> state \<Rightarrow> string list \<times> state" where
  "get_gcp_regions project_id api s =
     (case open_listing ''get_gcp_regions'' project_id api s of
        Inl s' \<Rightarrow> ([], s')
      | Inr rs \<Rightarrow>
          (case paginate collect_names rs [] 0 of
             (Some ex, names, _) \<Rightarrow>
               (sort names, error_print ''get_gcp_regions'' (str_of ex) project_id s)
           | (None, names, _) \<Rightarrow> (sort names, s)))"

section \<open>Probes that count the items of a listing\<close>

definition get_gcp_cloud_functions ::
  "args \<Rightarrow> string \<Rightarrow> string \<Rightarrow> 'c list option listing \<Rightarrow> state \<Rightarrow> exn option \<times> state" where
  "get_gcp_cloud_functions a project_id project_name api s =
     (case open_listing ''get_gcp_cloud_functions'' project_id api s of
        Inl s' \<Rightarrow> (None, s')
      | Inr rs \<Rightarrow>
          (case paginate count_items rs 0 0 of
             (Some ex, _, _) \<Rightarrow> (Some ex, s)
           | (None, serverless_functions_count, _) \<Rightarrow>
               (None, report a serverless_functions_count
                        (Cloud_functions serverless_functions_count project_name) s)))"

definition get_gcp_buckets ::
  "args \<Rightarrow> string \<Rightarrow> string \<Rightarrow> 'c list option listing \<Rightarrow> state \<Rightarrow> exn option \<times> state" where
  "get_gcp_buckets a project_id project_name api s =
     (case open_listing ''get_gcp_buckets'' project_id api s of
        Inl s' \<Rightarrow> (None, s')
      | Inr rs \<Rightarrow>
          (case paginate count_items rs 0 0 of
             (Some ex, _, _) \<Rightarrow> (Some ex, s)
           | (None, n, _) \<Rightarrow>
               (let buckets_count = min n 10000
                in (None, report a buckets_count (Buckets buckets_count project_name) s))))"

definition get_gcp_cloudsql_instances ::
  "args \<Rightarrow> string \<Rightarrow> string \<Rightarrow> 'c list option listing \<Rightarrow> state \<Rightarrow> exn option \<times> state" where
  "get_gcp_cloudsql_instances a project_id project_name api s =
     (case open_listing ''get_gcp_cloudsql_instances'' project_id api s of
        Inl s' \<Rightarrow> (None, s')
      | Inr rs \<Rightarrow>
          (case paginate count_items rs 0 0 of
             (Some ex, _, _) \<Rightarrow> (Some ex, s)
           | (None, database_instances_count, _) \<Rightarrow>
               (None, report a database_instances_count
                        (Cloud_sql database_instances_count project_name) s)))"

definition get_gcp_bigquery_datasets ::
  "args \<Rightarrow> string \<Rightarrow> string \<Rightarrow> 'c list option listing \<Rightarrow> state \<Rightarrow> exn option \<times> state" where
  "get_gcp_bigquery_datasets a project_id project_name api s =
     (case open_listing ''get_gcp_bigquery_datasets'' project_id api s of
        Inl s' \<Rightarrow> (None, s')
      | Inr rs \<Rightarrow>
          (case paginate count_items rs 0 0 of
             (Some ex, _, _) \<Rightarrow> (Some ex, s)
           | (None, data_warehouses_count, _) \<Rightarrow>
               (None, report a data_warehouses_count
                        (Bigquery_datasets data_warehouses_count project_name) s)))"

section \<open>Virtual machines and GKE nodes\<close>

text \<open>
  An instance of the compute listing, with the keys the probe reads. \<^verbatim>\<open>tags\<close>,
  \<^verbatim>\<open>labels\<close> and \<^verbatim>\<open>disks\<close> may be absent (\<open>None\<close>); a dictionary is the list of its
  key-value pairs. For a boot disk the probe asks the remote for the disk and its
  source image: \<open>image\<close> is the outcome of these two calls, the exception one of them
  raised or the \<^verbatim>\<open>description\<close> and \<^verbatim>\<open>family\<close> of the image, each of which may be
  absent.
\<close>

datatype image_lookup = Lookup_raises exn | Image_detail "string option" "string option"

record disk =
  boot :: bool
  source :: string
  image :: image_lookup

record vm_instance =
  tags :: "(string \<times> string) list option"
  labels :: "(string \<times> string) list option"
  disks :: "disk list option"

definition tag_in_tags :: "string \<Rightarrow> string \<Rightarrow> (string \<times> string) list \<Rightarrow> bool" where
  "tag_in_tags tag_key tag_value tgs =
     (if tgs = [] then False else map_of tgs tag_key = Some tag_value)"

definition label_in_labels :: "string \<Rightarrow> (string \<times> string) list \<Rightarrow> bool" where
  "label_in_labels label lbls = (if lbls = [] then False else label \<in> set (map fst lbls))"

text \<open>\<^verbatim>\<open>s.split(c)\<close>: the pieces of \<open>s\<close> between the occurrences of \<open>c\<close>; never empty.\<close>

fun split_str :: "char \<Rightarrow> string \<Rightarrow> string list" where
  "split_str c [] = [[]]"
| "split_str c (x # xs) =
     (if x = c then [] # split_str c xs
      else (case split_str c xs of
              [] \<Rightarrow> [[x]]
            | w # ws \<Rightarrow> (x # w) # ws))"

text \<open>\<^verbatim>\<open>s.lower()\<close> on ASCII letters, and \<^verbatim>\<open>sub in s\<close> for strings.\<close>

definition lower_char :: "char \<Rightarrow> char" where
  "lower_char c =
     (let n = (of_char c :: nat) in if 65 \<le> n \<and> n \<le> 90 then char_of (n + 32) else c)"

definition lower_str :: "string \<Rightarrow> string" where
  "lower_str s = map lower_char s"

fun starts_with :: "string \<Rightarrow> string \<Rightarrow> bool" where
  "starts_with [] s = True"
| "starts_with (p # ps) [] = False"
| "starts_with (p # ps) (c # cs) = (p = c \<and> starts_with ps cs)"

fun str_in :: "string \<Rightarrow> string \<Rightarrow> bool" where
  "str_in sub [] = (sub = [])"
| "str_in sub (c # cs) = (starts_with sub (c # cs) \<or> str_in sub cs)"

text \<open>
  \<^verbatim>\<open>get_disk_image_details\<close>: the two indexings \<^verbatim>\<open>disk['source'].split('/')[-3]\<close> and
  \<^verbatim>\<open>[-1]\<close> stand before the \<^verbatim>\<open>try\<close>, so a source with fewer than three pieces
  raises \<open>IndexError\<close> out of the probe. The remote calls are inside the \<^verbatim>\<open>try\<close>: their
  exception is recorded and the empty dictionary is returned.
\<close>

definition get_disk_image_details ::
  "string \<Rightarrow> disk \<Rightarrow> state \<Rightarrow> (exn + string option \<times> string option) \<times> state" where
  "get_disk_image_details project_id d s =
     (if length (split_str CHR ''/'' (source d)) < 3
      then (Inl (IndexError ''list index out of range''), s)
      else (case image d of
              Lookup_raises ex \<Rightarrow>
                (Inr (None, None), error_print ''get_disk_image_details'' (str_of ex) project_id s)
            | Image_detail description family \<Rightarrow> (Inr (description, family), s)))"

record counters =
  instances_count :: int
  gke_instances_count :: int
  non_os_disks_count :: int
  linux_instances_count :: int
  shared :: state

definition count_disk :: "string \<Rightarrow> disk \<Rightarrow> counters \<Rightarrow> exn option \<times> counters" where
  "count_disk project_id d c =
     (if boot d then
        (case get_disk_image_details project_id d (shared c) of
           (Inl ex, s') \<Rightarrow> (Some ex, c\<lparr>shared := s'\<rparr>)
         | (Inr (description, family), s') \<Rightarrow>
             (let description = (case description of None \<Rightarrow> ''UNKNOWN'' | Some x \<Rightarrow> x);
                  family = (case family of None \<Rightarrow> ''UNKNOWN'' | Some x \<Rightarrow> x);
                  c' = c\<lparr>shared := s'\<rparr>
              in if \<not> str_in ''win'' (lower_str description) \<and> \<not> str_in ''win'' (lower_str family)
                 then (None, c'\<lparr>linux_instances_count := linux_instances_count c' + 1\<rparr>)
                 else (None, c')))
      else (None, c\<lparr>non_os_disks_count := non_os_disks_count c + 1\<rparr>))"

text \<open>
  The loop \<^verbatim>\<open>for label in instance['labels']\<close> with its \<^verbatim>\<open>break\<close>: whether some key
  is \<^verbatim>\<open>goog-gke-node\<close>.
\<close>

fun gke_node_label :: "string list \<Rightarrow> bool" where
  "gke_node_label [] = False"
| "gke_node_label (label # ls) = (if label = ''goog-gke-node'' then True else gke_node_label ls)"

definition skipped :: "vm_instance \<Rightarrow> bool" where
  "skipped i =
     (tag_in_tags ''Vendor'' ''Databricks'' (case tags i of None \<Rightarrow> [] | Some t \<Rightarrow> t)
      \<or> label_in_labels ''databricks'' (case labels i of None \<Rightarrow> [] | Some l \<Rightarrow> l))"

definition is_gke_node :: "vm_instance \<Rightarrow> bool" where
  "is_gke_node i = (case labels i of None \<Rightarrow> False | Some l \<Rightarrow> gke_node_label (map fst l))"

definition count_instance :: "string \<Rightarrow> vm_instance \<Rightarrow> counters \<Rightarrow> exn option \<times> counters" where
  "count_instance project_id i c =
     (if skipped i then (None, c)
      else
        (let c1 = c\<lparr>instances_count := instances_count c + 1\<rparr>;
             is_compute_instance = \<not> is_gke_node i;
             c2 = (if is_compute_instance then c1
                   else c1\<lparr>gke_instances_count := gke_instances_count c1 + 1\<rparr>)
         in (case disks i of
               Some ds \<Rightarrow>
                 if is_compute_instance then for_each (count_disk project_id) ds c2 else (None, c2)
             | None \<Rightarrow> (None, c2))))"

text \<open>
  A page of the aggregated listing: under \<^verbatim>\<open>items\<close>, a dictionary from zone to the
  details of the zone, which may hold \<^verbatim>\<open>instances\<close>.
\<close>

type_synonym zones = "(string \<times> vm_instance list option) list option"

definition count_zone ::
  "string \<Rightarrow> string \<times> vm_instance list option \<Rightarrow> counters \<Rightarrow> exn option \<times> counters" where
  "count_zone project_id zone c =
     (case snd zone of
        None \<Rightarrow> (None, c)
      | Some instances \<Rightarrow> for_each (count_instance project_id) instances c)"

definition count_page :: "string \<Rightarrow> zones \<Rightarrow> counters \<Rightarrow> exn option \<times> counters" where
  "count_page project_id body c =
     (case body of
        None \<Rightarrow> (None, c)
      | Some items \<Rightarrow> for_each (count_zone project_id) items c)"

definition get_gce_instances_and_gke_instances ::
  "args \<Rightarrow> string \<Rightarrow> string \<Rightarrow> zones listing \<Rightarrow> state \<Rightarrow> exn option \<times> state" where
  "get_gce_instances_and_gke_instances a project_id project_name api s =
     (case open_listing ''get_gce_instances_and_gke_instances'' project_id api s of
        Inl s' \<Rightarrow> (None, s')
      | Inr rs \<Rightarrow>
          (case paginate (count_page project_id) rs
                  \<lparr>instances_count = 0, gke_instances_count = 0, non_os_disks_count = 0,
                   linux_instances_count = 0, shared = s\<rparr> 0 of
             (Some ex, c, _) \<Rightarrow> (Some ex, shared c)
           | (None, c, _) \<Rightarrow>
               (None,
                report a (gke_instances_count c) (GKE_hosts (gke_instances_count c) project_name)
                  (report a (instances_count c)
                     (Compute_instances (instances_count c) (non_os_disks_count c)
                        (linux_instances_count c) project_name)
                     (shared c)))))"

text \<open>
  For the statements about this probe: the instances of a page and of a sequence of
  pages, in the order of the listing, and the instances for which the probe makes no
  remote call with an ill-formed disk source (a boot disk of a counted instance that is
  not a GKE node has a source of at least three pieces), so that nothing raises
  \<open>IndexError\<close>.
\<close>

definition page_instances :: "zones \<Rightarrow> vm_instance list" where
  "page_instances body =
     (case body of
        None \<Rightarrow> []
      | Some items \<Rightarrow> concat (map (\<lambda>zone. case snd zone of None \<Rightarrow> [] | Some is \<Rightarrow> is) items))"

definition listed_instances :: "zones list \<Rightarrow> vm_instance list" where
  "listed_instances bodies = concat (map page_instances bodies)"

definition source_ok :: "disk \<Rightarrow> bool" where
  "source_ok d = (if boot d then 3 \<le> length (split_str CHR ''/'' (source d)) else True)"

definition sources_ok :: "vm_instance \<Rightarrow> bool" where
  "sources_ok i =
     (if skipped i \<or> is_gke_node i then True
      else (case disks i of None \<Rightarrow> True | Some ds \<Rightarrow> list_all source_ok ds))"

section \<open>Cloud Run revisions, GKE Autopilot clusters, Spanner\<close>

text \<open>
  A revision is the list \<^verbatim>\<open>item['status']['conditions']\<close>, each condition a pair of its
  \<^verbatim>\<open>type\<close> and \<^verbatim>\<open>status\<close>.
\<close>

type_synonym revision = "(string \<times> string) list"

definition count_revisions :: "revision list option \<Rightarrow> int \<Rightarrow> exn option \<times> int" where
  "count_revisions body n =
     (case body of
        None \<Rightarrow> (None, n)
      | Some items \<Rightarrow>
          (None, n + int (length (filter (\<lambda>c. fst c = ''ContainerHealthy'' \<and> snd c = ''True'')
                                  (concat items)))))"

definition get_gcp_cloudrun_revisions ::
  "args \<Rightarrow> string \<Rightarrow> string \<Rightarrow> revision list option listing \<Rightarrow> state \<Rightarrow> exn option \<times> state" where
  "get_gcp_cloudrun_revisions a project_id project_name api s =
     (case open_listing ''get_gcp_cloudrun_revisions'' project_id api s of
        Inl s' \<Rightarrow> (None, s')
      | Inr rs \<Rightarrow>
          (case paginate count_revisions rs 0 0 of
             (Some ex, _, _) \<Rightarrow> (Some ex, s)
           | (None, serverless_containers_count, _) \<Rightarrow>
               (None, report a serverless_containers_count
                        (Cloud_run_revisions serverless_containers_count project_name) s)))"

text \<open>
  A cluster: \<open>autopilot\<close> is \<open>None\<close> without the key \<^verbatim>\<open>autopilot\<close>, \<open>Some None\<close> when
  that dictionary has no \<^verbatim>\<open>enabled\<close>. For a node pool, \<open>max_pods_per_node\<close> is
  \<^verbatim>\<open>node_pool.get('config', {}).get('maxPodsPerNode')\<close>.
\<close>

record node_pool =
  current_node_count :: "int option"
  initial_node_count :: "int option"
  max_pods_per_node :: "int option"

record cluster =
  autopilot :: "bool option option"
  node_pools :: "node_pool list option"

definition count_node_pool :: "node_pool \<Rightarrow> int \<times> int \<Rightarrow> int \<times> int" where
  "count_node_pool np c =
     (let node_count = (case current_node_count np of
                          Some n \<Rightarrow> n
                        | None \<Rightarrow> (case initial_node_count np of Some n \<Rightarrow> n | None \<Rightarrow> 0));
          pods_per_node = (case max_pods_per_node np of Some n \<Rightarrow> n | None \<Rightarrow> 0)
      in (fst c + node_count, snd c + node_count * pods_per_node))"

definition count_cluster :: "cluster \<Rightarrow> int \<times> int \<Rightarrow> int \<times> int" where
  "count_cluster cl c =
     (if autopilot cl = Some (Some True)
      then fold count_node_pool (case node_pools cl of None \<Rightarrow> [] | Some nps \<Rightarrow> nps) c
      else c)"

definition count_clusters :: "cluster list option \<Rightarrow> int \<times> int \<Rightarrow> exn option \<times> int \<times> int" where
  "count_clusters body c =
     (case body of None \<Rightarrow> (None, c) | Some cls \<Rightarrow> (None, fold count_cluster cls c))"

definition get_gcp_gke_clusters ::
  "args \<Rightarrow> string \<Rightarrow> string \<Rightarrow> cluster list option listing \<Rightarrow> state \<Rightarrow> exn option \<times> state" where
  "get_gcp_gke_clusters a project_id project_name api s =
     (case open_listing ''get_gcp_gke_clusters'' project_id api s of
        Inl s' \<Rightarrow> (None, s')
      | Inr rs \<Rightarrow>
          (case paginate count_clusters rs (0, 0) 0 of
             (Some ex, _, _) \<Rightarrow> (Some ex, s)
           | (None, (gke_nodes_count, gke_containers_count), _) \<Rightarrow>
               (None,
                report a gke_containers_count (Autopilot_containers gke_containers_count project_name)
                  (report a gke_nodes_count (Autopilot_sensors gke_nodes_count project_name) s))))"

text \<open>
  \<^verbatim>\<open>get_gcp_spanner_databases\<close> guards only the construction of its request; an
  exception of its listing leaves it, and with it the probe.
\<close>

definition get_gcp_spanner_databases ::
  "string \<Rightarrow> 'c list option listing \<Rightarrow> state \<Rightarrow> (exn + int) \<times> state" where
  "get_gcp_spanner_databases instance_id api s =
     (case api of
        Build_fails ex \<Rightarrow> (Inr 0, error_print ''get_gcp_spanner_databases'' (str_of ex) instance_id s)
      | Request_fails ex \<Rightarrow> (Inr 0, error_print ''get_gcp_spanner_databases'' (str_of ex) instance_id s)
      | Listing rs \<Rightarrow>
          (case paginate count_items rs 0 0 of
             (Some ex, _, _) \<Rightarrow> (Inl ex, s)
           | (None, database_count, _) \<Rightarrow> (Inr database_count, s)))"

definition count_spanner_instance ::
  "(string \<Rightarrow> 'c list option listing) \<Rightarrow> string \<Rightarrow> int \<times> state \<Rightarrow> exn option \<times> int \<times> state" where
  "count_spanner_instance databases_api nm c =
     (case get_gcp_spanner_databases nm (databases_api nm) (snd c) of
        (Inl ex, s') \<Rightarrow> (Some ex, fst c, s')
      | (Inr n, s') \<Rightarrow> (None, fst c + n, s'))"

definition count_spanner_page ::
  "(string \<Rightarrow> 'c list option listing) \<Rightarrow> string list option \<Rightarrow> int \<times> state \<Rightarrow> exn option \<times> int \<times> state" where
  "count_spanner_page databases_api body c =
     (case body of
        None \<Rightarrow> (None, c)
      | Some instances \<Rightarrow> for_each (count_spanner_instance databases_api) instances c)"

definition get_gcp_spanner_instances ::
  "args \<Rightarrow> string \<Rightarrow> string \<Rightarrow> string list option listing \<Rightarrow> (string \<Rightarrow> 'c list option listing) \<Rightarrow>
   state \<Rightarrow> exn option \<times> state" where
  "get_gcp_spanner_instances a project_id project_name api databases_api s =
     (case open_listing ''get_gcp_spanner_instances'' project_id api s of
        Inl s' \<Rightarrow> (None, s')
      | Inr rs \<Rightarrow>
          (case paginate (count_spanner_page databases_api) rs (0, s) 0 of
             (Some ex, (_, s'), _) \<Rightarrow> (Some ex, s')
           | (None, (instances_databases_count, s'), _) \<Rightarrow>
               (None, report a instances_databases_count
                        (Spanner_databases instances_databases_count project_name) s')))"

section \<open>Registry container images\<close>

record repository =
  repo_format :: string
  repo_name :: string

record docker_image =
  image_tags :: "string list option"

text \<open>The first loop: the last piece of the name of every repository of format DOCKER.\<close>

definition collect_repositories ::
  "repository list option \<Rightarrow> string list \<Rightarrow> exn option \<times> string list" where
  "collect_repositories body repositories =
     (case body of
        None \<Rightarrow> (None, repositories)
      | Some items \<Rightarrow>
          (None, repositories @
                 map (\<lambda>item. last (split_str CHR ''/'' (repo_name item)))
                     (filter (\<lambda>item. repo_format item = ''DOCKER'') items)))"

definition count_image :: "args \<Rightarrow> docker_image \<Rightarrow> int" where
  "count_image a img =
     (case image_tags img of
        Some tgs \<Rightarrow> min (max_image_tags a) (int (length tgs))
      | None \<Rightarrow> 1)"

definition count_images :: "args \<Rightarrow> docker_image list option \<Rightarrow> int \<Rightarrow> int" where
  "count_images a body n =
     (case body of None \<Rightarrow> n | Some images \<Rightarrow> fold (\<lambda>img k. k + count_image a img) images n)"

text \<open>
  The loop over the images of one repository. It is the only loop that guards
  \<^verbatim>\<open>list_next\<close>: the handler records the exception and says \<^verbatim>\<open>continue\<close>, which in a
  \<^verbatim>\<open>while\<close> loop executes the same request once more.
\<close>

fun images_loop ::
  "args \<Rightarrow> string \<Rightarrow> docker_image list option response list \<Rightarrow> int \<Rightarrow> state \<Rightarrow> exn option \<times> int \<times> state" where
  "images_loop a project_id [] n s = (Some StopIteration, n, s)"
| "images_loop a project_id (Execute_raises ex # rs) n s = (Some ex, n, s)"
| "images_loop a project_id (Page body nxt # rs) n s =
     (let n' = count_images a body n
      in (case nxt of
            No_token \<Rightarrow> (None, n', s)
          | Token \<Rightarrow> images_loop a project_id rs n' s
          | Token_next_raises ex \<Rightarrow>
              images_loop a project_id rs n'
                (error_print ''get_gcp_gcr_images'' (str_of ex) project_id s)))"

definition count_repository ::
  "args \<Rightarrow> string \<Rightarrow> (string \<Rightarrow> docker_image list option listing) \<Rightarrow> string \<Rightarrow> int \<times> state \<Rightarrow>
   exn option \<times> int \<times> state" where
  "count_repository a project_id images_api repository c =
     (case open_listing ''get_gcp_gcr_images'' project_id (images_api repository) (snd c) of
        Inl s' \<Rightarrow> (None, fst c, s')
      | Inr rs \<Rightarrow>
          (case images_loop a project_id rs 0 (snd c) of
             (Some ex, _, s') \<Rightarrow> (Some ex, fst c, s')
           | (None, container_registry_images_in_repository, s') \<Rightarrow>
               (None, fst c + min container_registry_images_in_repository 10000, s')))"

definition get_gcp_gcr_images ::
  "args \<Rightarrow> string \<Rightarrow> string \<Rightarrow> string \<Rightarrow> repository list option listing \<Rightarrow>
   (string \<Rightarrow> docker_image list option listing) \<Rightarrow> state \<Rightarrow> exn option \<times> state" where
  "get_gcp_gcr_images a project_id project_name region api images_api s =
     (case open_listing ''get_gcp_gcr_images'' project_id api s of
        Inl s' \<Rightarrow> (None, s')
      | Inr rs \<Rightarrow>
          (case paginate collect_repositories rs [] 0 of
             (Some ex, _, _) \<Rightarrow> (Some ex, s)
           | (None, repositories, _) \<Rightarrow>
               (case for_each (count_repository a project_id images_api) repositories (0, s) of
                  (Some ex, (_, s')) \<Rightarrow> (Some ex, s')
                | (None, (container_registry_images, s')) \<Rightarrow>
                    (None, report a container_registry_images
                             (Registry_images container_registry_images project_name region) s'))))"

text \<open>
  The count of the probe in closed form: over the repositories of format DOCKER, the sum
  of the totals of the repositories, each capped at 10000; the total of a repository is
  the sum over its images of the number of tags, at most \<^verbatim>\<open>max_image_tags\<close>, for an
  image with a \<^verbatim>\<open>tags\<close> field and of 1 for an image without. \<open>images\<close> gives the
  images of a repository by the last piece of its name.
\<close>

definition expected_registry_images ::
  "args \<Rightarrow> repository list \<Rightarrow> (string \<Rightarrow> docker_image list) \<Rightarrow> int" where
  "expected_registry_images a repositories images =
     (\<Sum>repo\<leftarrow>filter (\<lambda>r. repo_format r = ''DOCKER'') repositories.
        min (\<Sum>img\<leftarrow>images (last (split_str CHR ''/'' (repo_name repo))).
               (case image_tags img of
                  Some tgs \<Rightarrow> min (max_image_tags a) (int (length tgs))
                | None \<Rightarrow> 1))
            10000)"

section \<open>The probes of one project\<close>

text \<open>What the remote answers for one project: one listing for every API a probe reads.\<close>

record account_env =
  services_listing :: "string list option listing"
  regions_listing :: "string list option listing"
  instances_listing :: "zones listing"
  clusters_listing :: "cluster list option listing"
  functions_listing :: "string list option listing"
  revisions_listing :: "revision list option listing"
  buckets_listing :: "string list option listing"
  sql_listing :: "string list option listing"
  spanner_listing :: "string list option listing"
  databases_listing :: "string \<Rightarrow> string list option listing"
  datasets_listing :: "string list option listing"
  repositories_listing :: "string \<Rightarrow> repository list option listing"
  images_listing :: "string \<Rightarrow> string \<Rightarrow> docker_image list option listing"

datatype probe_call =
    Call_gce_instances_and_gke_instances
  | Call_gke_clusters
  | Call_cloud_functions
  | Call_cloudrun_revisions
  | Call_buckets
  | Call_cloudsql_instances
  | Call_spanner_instances
  | Call_bigquery_datasets
  | Call_gcr_images string

fun run_probe ::
  "args \<Rightarrow> account_env \<Rightarrow> string \<Rightarrow> string \<Rightarrow> probe_call \<Rightarrow> state \<Rightarrow> exn option \<times> state" where
  "run_probe a env project_id project_name Call_gce_instances_and_gke_instances s =
     get_gce_instances_and_gke_instances a project_id project_name (instances_listing env) s"
| "run_probe a env project_id project_name Call_gke_clusters s =
     get_gcp_gke_clusters a project_id project_name (clusters_listing env) s"
| "run_probe a env project_id project_name Call_cloud_functions s =
     get_gcp_cloud_functions a project_id project_name (functions_listing env) s"
| "run_probe a env project_id project_name Call_cloudrun_revisions s =
     get_gcp_cloudrun_revisions a project_id project_name (revisions_listing env) s"
| "run_probe a env project_id project_name Call_buckets s =
     get_gcp_buckets a project_id project_name (buckets_listing env) s"
| "run_probe a env project_id project_name Call_cloudsql_instances s =
     get_gcp_cloudsql_instances a project_id project_name (sql_listing env) s"
| "run_probe a env project_id project_name Call_spanner_instances s =
     get_gcp_spanner_instances a project_id project_name (spanner_listing env)
       (databases_listing env) s"
| "run_probe a env project_id project_name Call_bigquery_datasets s =
     get_gcp_bigquery_datasets a project_id project_name (datasets_listing env) s"
| "run_probe a env project_id project_name (Call_gcr_images region) s =
     get_gcp_gcr_images a project_id project_name region (repositories_listing env region)
       (images_listing env region) s"

text \<open>
  The two branches of \<^verbatim>\<open>get_gcp_resources\<close> go through the same chain of \<^verbatim>\<open>if\<close>s, one
  calling the probes and one submitting them to a pool. The tests read only
  \<^verbatim>\<open>enabled\<close>, \<^verbatim>\<open>service_list\<close> and \<^verbatim>\<open>regions_list\<close>, which no probe changes, so each
  chain is the list of calls it selects, in order.
\<close>

definition selected_debug :: "args \<Rightarrow> string list \<Rightarrow> string list \<Rightarrow> probe_call list" where
  "selected_debug a service_list regions_list =
     (if enabled a ''Virtual Machines'' \<or> enabled a ''Container Hosts''
      then (if ''compute.googleapis.com'' \<in> set service_list
            then [Call_gce_instances_and_gke_instances] else []) else []) @
     (if enabled a ''Container Hosts'' \<or> enabled a ''Serverless Containers''
      then (if ''container.googleapis.com'' \<in> set service_list
            then [Call_gke_clusters] else []) else []) @
     (if enabled a ''Serverless Functions''
      then (if ''cloudfunctions.googleapis.com'' \<in> set service_list
            then [Call_cloud_functions] else []) else []) @
     (if enabled a ''Serverless Containers''
      then (if ''run.googleapis.com'' \<in> set service_list
            then [Call_cloudrun_revisions] else []) else []) @
     (if enabled a ''Data Buckets''
      then (if ''storage.googleapis.com'' \<in> set service_list
            then [Call_buckets] else []) else []) @
     (if enabled a ''PaaS Databases''
      then (if ''sqladmin.googleapis.com'' \<in> set service_list
            then [Call_cloudsql_instances] else []) @
           (if ''spanner.googleapis.com'' \<in> set service_list
            then [Call_spanner_instances] else []) else []) @
     (if enabled a ''Data Warehouses''
      then (if ''bigquery.googleapis.com'' \<in> set service_list
            then [Call_bigquery_datasets] else []) else []) @
     (if enabled a ''Registry Container Images''
      then (if ''artifactregistry.googleapis.com'' \<in> set service_list
            then map Call_gcr_images regions_list else []) else [])"

definition selected_parallel :: "args \<Rightarrow> string list \<Rightarrow> string list \<Rightarrow> probe_call list" where
  "selected_parallel a service_list regions_list =
     (if enabled a ''Virtual Machines'' \<or> enabled a ''Container Hosts''
      then (if ''compute.googleapis.com'' \<in> set service_list
            then [Call_gce_instances_and_gke_instances] else []) else []) @
     (if enabled a ''Container Hosts'' \<or> enabled a ''Serverless Containers''
      then (if ''container.googleapis.com'' \<in> set service_list
            then [Call_gke_clusters] else []) else []) @
     (if enabled a ''Serverless Functions''
      then (if ''cloudfunctions.googleapis.com'' \<in> set service_list
            then [Call_cloud_functions] else []) else []) @
     (if enabled a ''Serverless Containers''
      then (if ''run.googleapis.com'' \<in> set service_list
            then [Call_cloudrun_revisions] else []) else []) @
     (if enabled a ''Data Buckets''
      then (if ''storage-api.googleapis.com'' \<in> set service_list
            then [Call_buckets] else []) else []) @
     (if enabled a ''PaaS Databases''
      then (if ''sqladmin.googleapis.com'' \<in> set service_list
            then [Call_cloudsql_instances] else []) @
           (if ''spanner.googleapis.com'' \<in> set service_list
            then [Call_spanner_instances] else []) else []) @
     (if enabled a ''Data Warehouses''
      then (if ''bigquery.googleapis.com'' \<in> set service_list
            then [Call_bigquery_datasets] else []) else []) @
     (if enabled a ''Registry Container Images''
      then (if ''artifactregistry.googleapis.com'' \<in> set service_list
            then map Call_gcr_images regions_list else []) else [])"

text \<open>
  Debug mode calls the probes one after the other; nothing catches an exception, so the
  first probe that raises ends the chain. The result lists the calls that were made.
\<close>

fun run_sequential ::
  "(probe_call \<Rightarrow> state \<Rightarrow> exn option \<times> state) \<Rightarrow> probe_call list \<Rightarrow> state \<Rightarrow>
   exn option \<times> probe_call list \<times> state" where
  "run_sequential run [] s = (None, [], s)"
| "run_sequential run (c # cs) s =
     (case run c s of
        (Some ex, s') \<Rightarrow> (Some ex, [c], s')
      | (None, s') \<Rightarrow>
          (case run_sequential run cs s' of (r, invoked, s'') \<Rightarrow> (r, c # invoked, s'')))"

text \<open>
  Otherwise every selected probe is submitted to a thread pool, and the \<^verbatim>\<open>with\<close> block
  waits for all of them. An exception of a probe stays in its future; the loop over
  \<^verbatim>\<open>as_completed\<close> adds one to the local \<^verbatim>\<open>exceptions\<close> for it, which nothing reads.
  The probes run concurrently; each touches the shared state only in the locked steps
  of \<^verbatim>\<open>error_print\<close>, \<^verbatim>\<open>progress_print\<close> and the update of \<^verbatim>\<open>totals\<close>, and none reads
  what another wrote. The model runs them in the order of submission, which is one of
  the schedules of the pool. The result is the final value of \<^verbatim>\<open>exceptions\<close>, the calls
  made and the state.
\<close>

fun run_pool ::
  "(probe_call \<Rightarrow> state \<Rightarrow> exn option \<times> state) \<Rightarrow> probe_call list \<Rightarrow> state \<Rightarrow>
   nat \<times> probe_call list \<times> state" where
  "run_pool run [] s = (0, [], s)"
| "run_pool run (c # cs) s =
     (case run c s of
        (r, s') \<Rightarrow>
          (case run_pool run cs s' of
             (exceptions, invoked, s'') \<Rightarrow>
               ((if r = None then exceptions else exceptions + 1), c # invoked, s'')))"

definition get_gcp_resources ::
  "args \<Rightarrow> account_env \<Rightarrow> string \<Rightarrow> string \<Rightarrow> state \<Rightarrow> exn option \<times> probe_call list \<times> state" where
  "get_gcp_resources a env project_id project_name s =
     (case get_gcp_enabled_services project_id (services_listing env) s of
        (Some ex, _, s1) \<Rightarrow> (Some ex, [], s1)
      | (None, service_list, s1) \<Rightarrow>
          (case (if ''compute.googleapis.com'' \<in> set service_list
                 then get_gcp_regions project_id (regions_listing env) s1
                 else ([], s1)) of
             (regions_list, s2) \<Rightarrow>
               if service_list = [] then (None, [], s2)
               else if debug_mode a then
                 run_sequential (run_probe a env project_id project_name)
                   (selected_debug a service_list regions_list) s2
               else
                 (case run_pool (run_probe a env project_id project_name)
                         (selected_parallel a service_list regions_list) s2 of
                    (exceptions, invoked, s3) \<Rightarrow> (None, invoked, s3))))"

section \<open>Start-up: arguments, input files, the list of projects\<close>

text \<open>
  What a step of the start-up does: it ends the process (\<^verbatim>\<open>sys.exit\<close>, with the exit
  status and the lines printed before), it raises, or it goes on with a value.
  \<^verbatim>\<open>sys.exit()\<close> without an argument is exit status 0.
\<close>

datatype 'r outcome = Exit int "string list" | Raise exn | Proceed 'r

fun str_nat :: "nat \<Rightarrow> string" where
  "str_nat n =
     (if n < 10 then [char_of (48 + n)] else str_nat (n div 10) @ [char_of (48 + n mod 10)])"

definition str_int :: "int \<Rightarrow> string" where
  "str_int i = (if i < 0 then CHR ''-'' # str_nat (nat (- i)) else str_nat (nat i))"

text \<open>The checks that follow \<^verbatim>\<open>parser.parse_args()\<close> at module level.\<close>

definition check_args :: "args \<Rightarrow> unit outcome" where
  "check_args a =
     (if max_image_tags a < 1 \<or> max_image_tags a > 1000 then
        Exit 1 [''ERROR: --max-image-tags '' @ str_int (max_image_tags a) @ '' out of range: [1 .. 1000]'']
      else if max_workers a < 1 \<or> max_workers a > 1000 then
        Exit 1 [''ERROR: --max-workers '' @ str_int (max_workers a) @ '' out of range: [1 .. 1000]'']
      else Proceed ())"

text \<open>
  The working directory: the lines of a file, or \<open>None\<close> when
  \<^verbatim>\<open>os.path.isfile\<close> is false.
\<close>

type_synonym files = "string \<Rightarrow> string list option"

definition excluded_folders_file :: string where
  "excluded_folders_file = ''excluded-folders.txt''"

definition input_file :: string where
  "input_file = ''projects.txt''"

definition get_excluded_folders_from_file :: "files \<Rightarrow> string list outcome" where
  "get_excluded_folders_from_file fs =
     (case fs excluded_folders_file of
        Some lines \<Rightarrow> Proceed (sort lines)
      | None \<Rightarrow>
          Exit 0
            [error_line ''get_excluded_folders_from_file'' (excluded_folders_file @ '' does not exist.'') [],
             error_line ''get_excluded_folders_from_file''
               (''Create a file named '' @ excluded_folders_file @
                '' and add each GCP Folder ID to exclude, one per line.'') [],
             error_line ''get_excluded_folders_from_file'' ''Exiting...'' []])"

definition is_space :: "char \<Rightarrow> bool" where
  "is_space c = (c \<in> set [CHR '' '', CHR 0x09, CHR 0x0A, CHR 0x0B, CHR 0x0C, CHR 0x0D])"

definition strip_str :: "string \<Rightarrow> string" where
  "strip_str s = rev (dropWhile is_space (rev (dropWhile is_space s)))"

text \<open>
  The name of a project of \<^verbatim>\<open>projects.txt\<close> is asked from the remote: \<^verbatim>\<open>build\<close>
  raises, the request raises, or the answer comes with or without a \<^verbatim>\<open>name\<close>. As in
  \<^verbatim>\<open>get_gcp_enabled_services\<close>, \<^verbatim>\<open>client.close()\<close> follows the handler; when \<^verbatim>\<open>build\<close>
  raised it closes the client of the project before, and raises when there is none.
\<close>

datatype name_lookup = Lookup_build_fails exn | Lookup_fails exn | Project_name "string option"

fun lookup_names ::
  "(string \<Rightarrow> name_lookup) \<Rightarrow> string list \<Rightarrow> bool \<Rightarrow> (string \<times> string) list \<Rightarrow> state \<Rightarrow>
   (string \<times> string) list outcome \<times> state" where
  "lookup_names lookup [] client_bound gcp_projects s = (Proceed gcp_projects, s)"
| "lookup_names lookup (project_id # ids) client_bound gcp_projects s =
     (case lookup project_id of
        Lookup_build_fails ex \<Rightarrow>
          (let s' = error_print ''get_gcp_projects_from_file'' (str_of ex) project_id s
           in if client_bound then lookup_names lookup ids True gcp_projects s'
              else (Raise (UnboundLocalError ''cannot access local variable client''), s'))
      | Lookup_fails ex \<Rightarrow>
          lookup_names lookup ids True gcp_projects
            (error_print ''get_gcp_projects_from_file'' (str_of ex) project_id s)
      | Project_name nm \<Rightarrow>
          lookup_names lookup ids True
            (gcp_projects @ [(project_id, (case nm of None \<Rightarrow> ''UNNAMED'' | Some x \<Rightarrow> x))]) s)"

definition get_gcp_projects_from_file ::
  "files \<Rightarrow> (string \<Rightarrow> name_lookup) \<Rightarrow> state \<Rightarrow> (string \<times> string) list outcome \<times> state" where
  "get_gcp_projects_from_file fs lookup s =
     (case fs input_file of
        Some lines \<Rightarrow>
          (case lookup_names lookup
                  (map strip_str (filter (\<lambda>line. length (strip_str line) > 0) lines)) False [] s of
             (Proceed gcp_projects, s') \<Rightarrow> (Proceed (sort_key fst gcp_projects), s')
           | (r, s') \<Rightarrow> (r, s'))
      | None \<Rightarrow>
          (Exit 0
            [error_line ''get_gcp_projects_from_file'' (input_file @ '' does not exist.'') [],
             error_line ''get_gcp_projects_from_file''
               (''Create a file named '' @ input_file @
                '' and add each GCP Project ID to scan, one per line.'') [],
             error_line ''get_gcp_projects_from_file'' ''Exiting...'' []], s))"

text \<open>The projects of the remote listing (\<^verbatim>\<open>--all\<close>).\<close>

record project =
  lifecycle_state :: string
  parent_id :: "string option"
  project_ident :: string
  display_name :: "string option"

definition collect_projects ::
  "string list \<Rightarrow> project list option \<Rightarrow> (string \<times> string) list \<Rightarrow> exn option \<times> (string \<times> string) list" where
  "collect_projects excluded_folders body gcp_projects =
     (case body of
        None \<Rightarrow> (None, gcp_projects)
      | Some ps \<Rightarrow>
          (None, gcp_projects @
             map (\<lambda>p. (project_ident p, (case display_name p of None \<Rightarrow> ''UNNAMED'' | Some x \<Rightarrow> x)))
               (filter (\<lambda>p. lifecycle_state p = ''ACTIVE'' \<and>
                            (case parent_id p of None \<Rightarrow> True | Some f \<Rightarrow> f \<notin> set excluded_folders))
                  ps)))"

definition get_gcp_projects ::
  "string list \<Rightarrow> project list option listing \<Rightarrow> state \<Rightarrow> (string \<times> string) list outcome \<times> state" where
  "get_gcp_projects excluded_folders api s =
     (case open_listing ''get_gcp_projects'' [] api s of
        Inl s' \<Rightarrow> (Proceed [], error_print ''get_gcp_projects'' ''Error getting GCP Projects.'' [] s')
      | Inr rs \<Rightarrow>
          (case paginate (collect_projects excluded_folders) rs [] 0 of
             (Some ex, _, _) \<Rightarrow> (Raise ex, s)
           | (None, gcp_projects, _) \<Rightarrow> (Proceed (sort_key fst gcp_projects), s)))"

section \<open>Python floats\<close>

text \<open>
  A Python float is an IEEE 754 binary64 number: a finite value, an infinity or NaN. A
  finite value is kept as the rational number it denotes. Negative zero is not kept
  apart from zero: the code compares floats with 0, divides and multiplies them, and
  none of that tells the two zeros apart.
\<close>

datatype pyfloat = Finite rat | Pos_inf | Neg_inf | NaN

text \<open>The nearest integer, a tie going to the even one.\<close>

definition round_half_even :: "rat \<Rightarrow> int" where
  "round_half_even x =
     (let f = \<lfloor>x\<rfloor>; d = x - of_int f
      in if d < 1 / 2 then f else if 1 / 2 < d then f + 1 else if even f then f else f + 1)"

text \<open>For \<open>x > 0\<close>, the exponent \<open>e\<close> for which \<open>x\<close> is at least \<^verbatim>\<open>2^e\<close> and less than \<^verbatim>\<open>2^(e+1)\<close>.\<close>

definition exponent_of :: "rat \<Rightarrow> int" where
  "exponent_of x = (if 1 \<le> x then bitlen \<lfloor>x\<rfloor> - 1 else - bitlen (\<lceil>1 / x\<rceil> - 1))"

text \<open>
  Rounding of an exact result to a double, as the hardware does it in the default mode:
  to the nearest number with a significand of 53 bits, ties to even; the spacing stays
  at \<^verbatim>\<open>2^-1074\<close> below \<^verbatim>\<open>2^-1022\<close> (subnormal numbers), and a result that rounds
  to \<^verbatim>\<open>2^1024\<close> or more is an infinity.
\<close>

definition round_to_double :: "rat \<Rightarrow> pyfloat" where
  "round_to_double x =
     (if x = 0 then Finite 0
      else
        (let a = \<bar>x\<bar>;
             e = max (exponent_of a) (- 1022);
             u = 2 powi (e - 52);
             r = of_int (round_half_even (a / u)) * u
         in if 2 powi 1024 \<le> r then (if 0 < x then Pos_inf else Neg_inf)
            else Finite (if 0 < x then r else - r)))"

text \<open>
  The conversion of an int to a float and the true division of two ints are correctly
  rounded in Python. Both raise \<open>OverflowError\<close> for a result beyond the range of
  doubles; the ints of the progress line are \<^verbatim>\<open>completed_count\<close>, \<^verbatim>\<open>len(projects)\<close> and
  their difference, all bounded by the length of a list (less than \<^verbatim>\<open>2^63\<close>), where
  that cannot happen, and the model rounds every int.
\<close>

definition float_of_int :: "int \<Rightarrow> pyfloat" where
  "float_of_int i = round_to_double (of_int i)"

definition int_truediv :: "int \<Rightarrow> int \<Rightarrow> exn + pyfloat" where
  "int_truediv a b =
     (if b = 0 then Inl (ZeroDivisionError ''division by zero'')
      else Inr (round_to_double (of_int a / of_int b)))"

text \<open>
  \<^verbatim>\<open>a / b\<close> and \<^verbatim>\<open>a * b\<close> on floats. Python raises when the divisor is zero, whatever
  the dividend; everything else follows IEEE 754.
\<close>

fun float_truediv :: "pyfloat \<Rightarrow> pyfloat \<Rightarrow> exn + pyfloat" where
  "float_truediv a (Finite b) =
     (if b = 0 then Inl (ZeroDivisionError ''float division by zero'')
      else Inr (case a of
                  Finite x \<Rightarrow> round_to_double (x / b)
                | Pos_inf \<Rightarrow> (if 0 < b then Pos_inf else Neg_inf)
                | Neg_inf \<Rightarrow> (if 0 < b then Neg_inf else Pos_inf)
                | NaN \<Rightarrow> NaN))"
| "float_truediv a NaN = Inr NaN"
| "float_truediv a b = Inr (case a of Finite x \<Rightarrow> Finite 0 | _ \<Rightarrow> NaN)"

fun float_mul :: "pyfloat \<Rightarrow> pyfloat \<Rightarrow> pyfloat" where
  "float_mul (Finite a) (Finite b) = round_to_double (a * b)"
| "float_mul NaN b = NaN"
| "float_mul a NaN = NaN"
| "float_mul (Finite a) b =
     (if a = 0 then NaN else if (0 < a) = (b = Pos_inf) then Pos_inf else Neg_inf)"
| "float_mul a (Finite b) =
     (if b = 0 then NaN else if (0 < b) = (a = Pos_inf) then Pos_inf else Neg_inf)"
| "float_mul a b = (if a = b then Pos_inf else Neg_inf)"

text \<open>The comparison \<^verbatim>\<open>x > 0\<close>.\<close>

fun float_gt0 :: "pyfloat \<Rightarrow> bool" where
  "float_gt0 (Finite a) = (0 < a)"
| "float_gt0 Pos_inf = True"
| "float_gt0 Neg_inf = False"
| "float_gt0 NaN = False"

section \<open>The scan of all projects and the progress line\<close>

text \<open>
  One task per project: what the remote answers for it, and the reading of
  \<^verbatim>\<open>time.time() - start_time\<close>, a float, when its completion is handled.
\<close>

record task =
  task_id :: string
  task_name :: string
  task_env :: account_env
  task_elapsed :: pyfloat

record snapshot =
  snap_completed :: int
  snap_total :: int
  snap_percentage :: pyfloat
  snap_rate :: pyfloat
  snap_remaining :: pyfloat

record main_state =
  globals :: state
  completed_count :: int
  progress :: "snapshot list"

text \<open>
  What the \<^verbatim>\<open>try\<close> block of the loop over \<^verbatim>\<open>as_completed(project_futures)\<close>
  computes once \<^verbatim>\<open>completed_count\<close> is \<open>k\<close>, with \<open>n\<close> for \<^verbatim>\<open>len(projects)\<close>, in
  the order of the source: \<^verbatim>\<open>rate = completed_count / elapsed if elapsed > 0 else 0\<close>,
  \<^verbatim>\<open>remaining = (len(projects) - completed_count) / rate if rate > 0 else 0\<close>,
  \<^verbatim>\<open>percentage = (completed_count / len(projects)) * 100\<close>. An int divided by a float is
  converted first; the quotient of two ints is rounded once; the int \<^verbatim>\<open>0\<close> of the
  two \<^verbatim>\<open>else\<close> branches is kept as the float zero. The last division raises when \<open>n\<close>
  is 0.
\<close>

definition progress_line :: "int \<Rightarrow> int \<Rightarrow> pyfloat \<Rightarrow> exn + snapshot" where
  "progress_line k n elapsed =
     (case (if float_gt0 elapsed then float_truediv (float_of_int k) elapsed
            else Inr (Finite 0)) of
        Inl ex \<Rightarrow> Inl ex
      | Inr rate \<Rightarrow>
          (case (if float_gt0 rate then float_truediv (float_of_int (n - k)) rate
                 else Inr (Finite 0)) of
             Inl ex \<Rightarrow> Inl ex
           | Inr remaining \<Rightarrow>
               (case int_truediv k n of
                  Inl ex \<Rightarrow> Inl ex
                | Inr ratio \<Rightarrow>
                    Inr \<lparr>snap_completed = k, snap_total = n,
                         snap_percentage = float_mul ratio (float_of_int 100),
                         snap_rate = rate, snap_remaining = remaining\<rparr>)))"

text \<open>
  The body of that loop, for a future with result \<open>r\<close> (\<open>None\<close>: the task returned).
  An exception of the task comes out of \<^verbatim>\<open>future.result()\<close>, before the increment of
  the \<^verbatim>\<open>try\<close> block; an exception of the progress line comes after it. The handler
  increments the counter and records the exception in both cases.
\<close>

definition account_finished ::
  "int \<Rightarrow> string \<Rightarrow> exn option \<Rightarrow> pyfloat \<Rightarrow> main_state \<Rightarrow> main_state" where
  "account_finished n project_id r elapsed ms =
     (case r of
        None \<Rightarrow>
          (let k = completed_count ms + 1
           in (case progress_line k n elapsed of
                 Inr snap \<Rightarrow> ms\<lparr>completed_count := k, progress := progress ms @ [snap]\<rparr>
               | Inl ex \<Rightarrow>
                   ms\<lparr>completed_count := k + 1,
                      globals := error_print ''main''
                        (''Exception scanning '' @ project_id @ '': '' @ str_of ex) [] (globals ms)\<rparr>))
      | Some ex \<Rightarrow>
          ms\<lparr>completed_count := completed_count ms + 1,
             globals := error_print ''main''
               (''Exception scanning '' @ project_id @ '': '' @ str_of ex) [] (globals ms)\<rparr>)"

text \<open>
  The tasks are listed in the order in which their futures complete; as for the probes
  of one project, the model runs a task and then handles its completion.
\<close>

fun as_completed_loop :: "args \<Rightarrow> int \<Rightarrow> task list \<Rightarrow> main_state \<Rightarrow> main_state" where
  "as_completed_loop a n [] ms = ms"
| "as_completed_loop a n (t # ts) ms =
     (case get_gcp_resources a (task_env t) (task_id t) (task_name t) (globals ms) of
        (r, invoked, s') \<Rightarrow>
          as_completed_loop a n ts
            (account_finished n (task_id t) r (task_elapsed t) (ms\<lparr>globals := s'\<rparr>)))"

text \<open>The loop of debug mode: a plain call for each project, nothing caught.\<close>

fun debug_loop :: "args \<Rightarrow> task list \<Rightarrow> main_state \<Rightarrow> exn option \<times> main_state" where
  "debug_loop a [] ms = (None, ms)"
| "debug_loop a (t # ts) ms =
     (case get_gcp_resources a (task_env t) (task_id t) (task_name t) (globals ms) of
        (Some ex, invoked, s') \<Rightarrow> (Some ex, ms\<lparr>globals := s'\<rparr>)
      | (None, invoked, s') \<Rightarrow> debug_loop a ts (ms\<lparr>globals := s'\<rparr>))"

definition scan :: "args \<Rightarrow> task list \<Rightarrow> state \<Rightarrow> exn option \<times> main_state" where
  "scan a tasks s =
     (let ms = \<lparr>globals = s, completed_count = 0, progress = []\<rparr>
      in if debug_mode a then debug_loop a tasks ms
         else (None, as_completed_loop a (int (length tasks)) tasks ms))"

text \<open>
  The whole run. \<open>world\<close> is everything outside the process: the files, the answers
  of the remote, the line typed at the prompt, and the clock.
\<close>

record world =
  files_of :: files
  projects_listing :: "project list option listing"
  names_of :: "string \<Rightarrow> name_lookup"
  typed_project :: string
  env_of :: "string \<Rightarrow> account_env"
  elapsed_at :: "string \<Rightarrow> pyfloat"

datatype run_result = Exited int "string list" | Crashed exn | Finished main_state

definition discover :: "args \<Rightarrow> world \<Rightarrow> state \<Rightarrow> (string \<times> string) list outcome \<times> state" where
  "discover a w s =
     (case (if input_excluded_folders a then get_excluded_folders_from_file (files_of w)
            else Proceed []) of
        Exit status printed \<Rightarrow> (Exit status printed, s)
      | Raise ex \<Rightarrow> (Raise ex, s)
      | Proceed excluded_folders \<Rightarrow>
          if all_projects a then get_gcp_projects excluded_folders (projects_listing w) s
          else if input_projects a then get_gcp_projects_from_file (files_of w) (names_of w) s
          else (case id_arg a of
                  Some i \<Rightarrow> if i \<noteq> [] then (Proceed [(i, i)], s)
                            else (Proceed [(typed_project w, typed_project w)], s)
                | None \<Rightarrow> (Proceed [(typed_project w, typed_project w)], s)))"

definition main :: "args \<Rightarrow> world \<Rightarrow> run_result" where
  "main a w =
     (case discover a w initial_state of
        (Exit status printed, _) \<Rightarrow> Exited status printed
      | (Raise ex, _) \<Rightarrow> Crashed ex
      | (Proceed projects, s) \<Rightarrow>
          (case scan a
                  (map (\<lambda>p. \<lparr>task_id = fst p, task_name = snd p, task_env = env_of w (fst p),
                              task_elapsed = elapsed_at w (fst p)\<rparr>) projects) s of
             (Some ex, _) \<Rightarrow> Crashed ex
           | (None, ms) \<Rightarrow> Finished ms))"

definition script :: "args \<Rightarrow> world \<Rightarrow> run_result" where
  "script a w =
     (case check_args a of
        Exit status printed \<Rightarrow> Exited status printed
      | Raise ex \<Rightarrow> Crashed ex
      | Proceed _ \<Rightarrow> main a w)"

section \<open>Concrete inputs\<close>

text \<open>
  The defaults of the argument parser, and a remote on which every listing answers one
  empty page.
\<close>

definition default_args :: args where
  "default_args =
     \<lparr>all_projects = False, id_arg = None, input_projects = False,
      input_excluded_folders = False, data_mode = False, images_mode = False,
      max_image_tags = 5, max_workers = 100, debug_mode = False, verbose_mode = False\<rparr>"

definition quiet_env :: account_env where
  "quiet_env =
     \<lparr>services_listing = Listing [Page None No_token],
      regions_listing = Listing [Page None No_token],
      instances_listing = Listing [Page None No_token],
      clusters_listing = Listing [Page None No_token],
      functions_listing = Listing [Page None No_token],
      revisions_listing = Listing [Page None No_token],
      buckets_listing = Listing [Page None No_token],
      sql_listing = Listing [Page None No_token],
      spanner_listing = Listing [Page None No_token],
      databases_listing = (\<lambda>_. Listing [Page None No_token]),
      datasets_listing = Listing [Page None No_token],
      repositories_listing = (\<lambda>_. Listing [Page None No_token]),
      images_listing = (\<lambda>_ _. Listing [Page None No_token])\<rparr>"

definition warehouse_env :: account_env where
  "warehouse_env =
     quiet_env\<lparr>services_listing := Listing [Page (Some [''bigquery.googleapis.com'']) No_token],
               datasets_listing := Listing [Page (Some [''d1'']) No_token]\<rparr>"

definition warehouse_task :: task where
  "warehouse_task =
     \<lparr>task_id = ''p1'', task_name = ''P1'', task_env = warehouse_env,
      task_elapsed = Finite 2\<rparr>"

definition data_disk_listing :: "zones listing" where
  "data_disk_listing =
     Listing
       [Page (Some [(''us-central1-a'',
                     Some [\<lparr>tags = None, labels = None,
                            disks = Some [\<lparr>boot = False,
                                            source = ''projects/p1/zones/us-central1-a/disks/data'',
                                            image = Image_detail None None\<rparr>]\<rparr>])])
          No_token]"

text \<open>
  Three instances: one tagged for Databricks, one GKE node, one plain virtual machine
  with a boot disk; and two pages of a compute listing that hold them.
\<close>

definition databricks_vm :: vm_instance where
  "databricks_vm =
     \<lparr>tags = Some [(''Vendor'', ''Databricks'')], labels = Some [(''goog-gke-node'', '''')],
      disks = None\<rparr>"

definition gke_vm :: vm_instance where
  "gke_vm = \<lparr>tags = None, labels = Some [(''goog-gke-node'', '''')], disks = None\<rparr>"

definition plain_vm :: vm_instance where
  "plain_vm =
     \<lparr>tags = None, labels = None,
      disks = Some [\<lparr>boot = True, source = ''projects/p1/zones/zone-b/disks/boot'',
                      image = Image_detail (Some ''Debian GNU/Linux 12'') (Some ''debian-12'')\<rparr>]\<rparr>"

definition first_page :: zones where
  "first_page = Some [(''zones/zone-a'', Some [databricks_vm, gke_vm])]"

definition last_page :: zones where
  "last_page = Some [(''zones/zone-b'', Some [plain_vm]), (''zones/zone-c'', None)]"

text \<open>
  An Artifact Registry location with two DOCKER repositories and one MAVEN repository
  on two pages, and the images of each repository.
\<close>

definition repository_pages :: "repository list option list" where
  "repository_pages =
     [Some [\<lparr>repo_format = ''DOCKER'', repo_name = ''projects/p1/locations/us/repositories/app''\<rparr>,
            \<lparr>repo_format = ''MAVEN'', repo_name = ''projects/p1/locations/us/repositories/jars''\<rparr>]]"

definition repository_last_page :: "repository list option" where
  "repository_last_page =
     Some [\<lparr>repo_format = ''DOCKER'', repo_name = ''projects/p1/locations/us/repositories/web''\<rparr>]"

definition image_pages :: "string \<Rightarrow> docker_image list option list" where
  "image_pages repository =
     (if repository = ''app''
      then [Some [\<lparr>image_tags = Some [''1'', ''2'', ''3'', ''4'', ''5'', ''6'', ''7'']\<rparr>,
                  \<lparr>image_tags = None\<rparr>]]
      else [])"

definition image_last_page :: "string \<Rightarrow> docker_image list option" where
  "image_last_page repository =
     (if repository = ''app'' then Some [\<lparr>image_tags = Some [''latest'', ''stable'']\<rparr>]
      else if repository = ''web'' then Some [\<lparr>image_tags = Some [''latest'']\<rparr>]
      else None)"

definition quiet_world :: world where
  "quiet_world =
     \<lparr>files_of = (\<lambda>_. None),
      projects_listing = Listing [Page None No_token],
      names_of = (\<lambda>_. Project_name None),
      typed_project = ''typed-project'',
      env_of = (\<lambda>_. quiet_env),
      elapsed_at = (\<lambda>_. Finite 1)\<rparr>"

section \<open>Properties of the pagination loop\<close>

lemma paginate_paged:
  "paginate (\<lambda>b a. (None, g b a)) (paged pre lst rest) acc n =
     (None, fold g (pre @ [lst]) acc, n + length pre + 1)"
  by (induction pre arbitrary: acc n) (simp_all add: paged_def)

lemma count_items_fold:
  "fold (\<lambda>b n. case b of None \<Rightarrow> n | Some xs \<Rightarrow> n + int (length xs)) bs acc =
     acc + (\<Sum>b\<leftarrow>bs. case b of None \<Rightarrow> 0 | Some xs \<Rightarrow> int (length xs))"
  by (induction bs arbitrary: acc) (simp_all split: option.splits)

lemma collect_names_fold:
  "fold (\<lambda>b names. case b of None \<Rightarrow> names | Some xs \<Rightarrow> names @ xs) bs acc =
     acc @ concat (map (\<lambda>b. case b of None \<Rightarrow> [] | Some xs \<Rightarrow> xs) bs)"
  by (induction bs arbitrary: acc) (simp_all split: option.splits)

lemma count_items_paged:
  "paginate count_items (paged pre lst rest) acc n =
     (None, acc + (\<Sum>b\<leftarrow>pre @ [lst]. case b of None \<Rightarrow> 0 | Some xs \<Rightarrow> int (length xs)),
      n + length pre + 1)"
proof -
  have eq: "count_items =
      (\<lambda>b a. (None, case b of None \<Rightarrow> a | Some (xs :: 'a list) \<Rightarrow> a + int (length xs)))"
    by (intro ext) (simp add: count_items_def)
  show ?thesis
    unfolding eq by (simp only: paginate_paged count_items_fold)
qed

lemma collect_names_paged:
  "paginate collect_names (paged pre lst rest) acc n =
     (None, acc @ concat (map (\<lambda>b. case b of None \<Rightarrow> [] | Some xs \<Rightarrow> xs) (pre @ [lst])),
      n + length pre + 1)"
proof -
  have eq: "collect_names = (\<lambda>b a. (None, case b of None \<Rightarrow> a | Some xs \<Rightarrow> a @ xs))"
    by (intro ext) (simp add: collect_names_def)
  show ?thesis
    unfolding eq by (simp only: paginate_paged collect_names_fold)
qed

text \<open>
  Claim C6. On a listing of three pages with two, two and one items, of which the first
  two carry a \<^verbatim>\<open>nextPageToken\<close>, the loop yields the five items (as
  \<^verbatim>\<open>get_gcp_enabled_services\<close> collects them, and as \<^verbatim>\<open>get_gcp_buckets\<close> counts them)
  and issues three requests. In general, on pages \<open>pre\<close> that carry a token followed by
  a page \<open>lst\<close> that carries none, the loop issues one request per page, \<open>length pre + 1\<close>
  in all, takes the items of exactly these pages and stops: whatever the remote would
  answer afterwards (\<open>rest\<close>) is never requested.
\<close>

theorem paginated_walk:
  "paginate collect_names
     [Page (Some [i1, i2]) Token, Page (Some [i3, i4]) Token, Page (Some [i5]) No_token] [] 0
     = (None, [i1, i2, i3, i4, i5], 3)
   \<and> paginate count_items
     [Page (Some [j1, j2]) Token, Page (Some [j3, j4]) Token, Page (Some [j5]) No_token] 0 0
     = (None, 5, 3)
   \<and> paginate count_items (paged pre lst rest) 0 0
     = (None, (\<Sum>b\<leftarrow>pre @ [lst]. case b of None \<Rightarrow> 0 | Some xs \<Rightarrow> int (length xs)),
        length pre + 1)
   \<and> paginate collect_names (paged pre' lst' rest') [] 0
     = (None, concat (map (\<lambda>b. case b of None \<Rightarrow> [] | Some xs \<Rightarrow> xs) (pre' @ [lst'])),
        length pre' + 1)"
  using count_items_paged [of pre lst rest 0 0] collect_names_paged [of pre' lst' rest' "[]" 0]
  by (simp add: count_items_def collect_names_def)

section \<open>Rounding to a double\<close>




lemma round_half_even_ge: "of_int m \<le> x \<Longrightarrow> m \<le> round_half_even x"
proof -
  assume "of_int m \<le> x"
  then have "m \<le> \<lfloor>x\<rfloor>" by (simp add: le_floor_iff)
  then show ?thesis
    by (auto simp add: round_half_even_def Let_def)
qed














lemma float_truediv_gt0: "float_gt0 b \<Longrightarrow> \<exists>v. float_truediv a b = Inr v"
  by (cases b) simp_all

lemma progress_line_returns:
  "n \<noteq> 0 \<Longrightarrow> \<exists>snap. progress_line k n e = Inr snap \<and> snap_completed snap = k \<and> snap_total snap = n"
proof -
  assume n: "n \<noteq> 0"
  obtain rate where r: "(if float_gt0 e then float_truediv (float_of_int k) e else Inr (Finite 0)) = Inr rate"
    using float_truediv_gt0 [of e "float_of_int k"] by (cases rule: case_split [of "float_gt0 e"]) auto
  obtain remaining where m:
    "(if float_gt0 rate then float_truediv (float_of_int (n - k)) rate else Inr (Finite 0)) = Inr remaining"
    using float_truediv_gt0 [of rate "float_of_int (n - k)"]
    by (cases rule: case_split [of "float_gt0 rate"]) auto
  show ?thesis
    using n by (simp add: progress_line_def r m int_truediv_def)
qed












section \<open>The counter of finished projects\<close>

lemma account_finished_count:
  "n \<noteq> 0 \<Longrightarrow> completed_count (account_finished n pid r e ms) = completed_count ms + 1"
proof (cases r)
  case None
  assume "n \<noteq> 0"
  then obtain snap where "progress_line (completed_count ms + 1) n e = Inr snap"
    using progress_line_returns by blast
  with None show ?thesis
    by (simp add: account_finished_def Let_def)
next
  case (Some ex)
  then show ?thesis
    by (simp add: account_finished_def)
qed

lemma as_completed_loop_count:
  "n \<noteq> 0 \<Longrightarrow>
   completed_count (as_completed_loop a n ts ms) = completed_count ms + int (length ts)"
proof (induction ts arbitrary: ms)
  case Nil
  then show ?case by simp
next
  case (Cons t ts)
  obtain r invoked s' where
    run: "get_gcp_resources a (task_env t) (task_id t) (task_name t) (globals ms) = (r, invoked, s')"
    using prod_cases3 by blast
  from Cons show ?case
    by (simp add: run account_finished_count)
qed

lemma debug_loop_count: "completed_count (snd (debug_loop a ts ms)) = completed_count ms"
proof (induction ts arbitrary: ms)
  case Nil
  then show ?case by simp
next
  case (Cons t ts)
  obtain r invoked s' where
    run: "get_gcp_resources a (task_env t) (task_id t) (task_name t) (globals ms) = (r, invoked, s')"
    using prod_cases3 by blast
  from Cons show ?case
    by (cases r) (simp_all add: run)
qed

text \<open>
  Claim C8, as the code has it. In the parallel mode the handling of a finished task
  adds exactly one to \<^verbatim>\<open>completed_count\<close>, whether the task returned or raised; after
  \<open>i\<close> of the tasks the counter is \<open>i\<close>, so it never decreases and never exceeds the
  number of projects, which it reaches at the end. In debug mode nothing increments
  the counter: it is 0 when the loop ends, however it ends.
\<close>

theorem completed_count_by_mode:
  "(0 < n \<longrightarrow> completed_count (account_finished n pid r e ms) = completed_count ms + 1)
   \<and> (i \<le> length tasks \<longrightarrow>
        completed_count (as_completed_loop a (int (length tasks)) (take i tasks)
          \<lparr>globals = s, completed_count = 0, progress = []\<rparr>) = int i)
   \<and> (\<not> debug_mode a \<longrightarrow> completed_count (snd (scan a tasks s)) = int (length tasks))
   \<and> (debug_mode a \<longrightarrow> completed_count (snd (scan a tasks s)) = 0)"
proof (intro conjI impI)
  assume "0 < n"
  then show "completed_count (account_finished n pid r e ms) = completed_count ms + 1"
    by (simp add: account_finished_count)
next
  assume i: "i \<le> length tasks"
  show "completed_count (as_completed_loop a (int (length tasks)) (take i tasks)
          \<lparr>globals = s, completed_count = 0, progress = []\<rparr>) = int i"
  proof (cases tasks)
    case Nil
    with i show ?thesis by simp
  next
    case (Cons t ts)
    then have "int (length tasks) \<noteq> 0" by simp
    from as_completed_loop_count [OF this] i show ?thesis by simp
  qed
next
  assume par: "\<not> debug_mode a"
  show "completed_count (snd (scan a tasks s)) = int (length tasks)"
  proof (cases tasks)
    case Nil
    with par show ?thesis by (simp add: scan_def)
  next
    case (Cons t ts)
    then have "int (length tasks) \<noteq> 0" by simp
    from as_completed_loop_count [OF this] par show ?thesis by (simp add: scan_def)
  qed
next
  assume "debug_mode a"
  then show "completed_count (snd (scan a tasks s)) = 0"
    by (simp add: scan_def debug_loop_count)
qed

theorem completed_count_by_mode_witness:
  "completed_count (account_finished 3 ''p1'' (Some (HttpError ''503'')) (Finite 1)
      \<lparr>globals = initial_state, completed_count = 1, progress = []\<rparr>) = 2
   \<and> completed_count (as_completed_loop default_args 2 [warehouse_task]
          \<lparr>globals = initial_state, completed_count = 0, progress = []\<rparr>) = 1
   \<and> completed_count (snd (scan default_args [warehouse_task, warehouse_task] initial_state)) = 2
   \<and> completed_count (snd (scan (default_args\<lparr>debug_mode := True\<rparr>)
          [warehouse_task, warehouse_task] initial_state)) = 0"
  using completed_count_by_mode [of 3 "''p1''" "Some (HttpError ''503'')" "Finite 1"
      "\<lparr>globals = initial_state, completed_count = 1, progress = []\<rparr>" 1
      "[warehouse_task, warehouse_task]" default_args initial_state]
    completed_count_by_mode [of 3 "''p1''" "Some (HttpError ''503'')" "Finite 1"
      "\<lparr>globals = initial_state, completed_count = 1, progress = []\<rparr>" 1
      "[warehouse_task, warehouse_task]" "default_args\<lparr>debug_mode := True\<rparr>" initial_state]
  by (simp add: default_args_def)

text \<open>
  In debug mode one project whose scan returns leaves the counter at 0, not at 1: the
  task has finished and nothing was counted.
\<close>

theorem debug_mode_never_counts:
  "completed_count (snd (scan (default_args\<lparr>debug_mode := True\<rparr>) [warehouse_task] initial_state))
     \<noteq> int (length [warehouse_task])"
  by code_simp

section \<open>Which probes run, and what becomes of their exceptions\<close>

lemma run_sequential_raises:
  "run c s = (Some ex, s') \<Longrightarrow> run_sequential run (c # cs) s = (Some ex, [c], s')"
  by simp

lemma selected_agree:
  "(''storage.googleapis.com'' \<in> set service_list) = (''storage-api.googleapis.com'' \<in> set service_list)
   \<Longrightarrow> selected_debug a service_list regions_list = selected_parallel a service_list regions_list"
  by (simp add: selected_debug_def selected_parallel_def)

text \<open>
  Claim C5 says that both branches of \<^verbatim>\<open>get_gcp_resources\<close> select the same probes for
  the same enabled services. They do not: the bucket probe is gated by
  \<^verbatim>\<open>storage.googleapis.com\<close> in the debug branch and by \<^verbatim>\<open>storage-api.googleapis.com\<close>
  in the parallel branch. With the parser's defaults, a project with only the first
  service has its buckets counted in debug mode alone, and a project with only the
  second in parallel mode alone. (\<open>selected_agree\<close>: the gates of all other probes are
  the same.)
\<close>

theorem bucket_gate_differs:
  "selected_debug default_args [''storage.googleapis.com''] [] = [Call_buckets]
   \<and> selected_parallel default_args [''storage.googleapis.com''] [] = []
   \<and> selected_debug default_args [''storage-api.googleapis.com''] [] = []
   \<and> selected_parallel default_args [''storage-api.googleapis.com''] [] = [Call_buckets]"
  by (simp add: selected_debug_def selected_parallel_def enabled_def default_args_def)

text \<open>
  Claim C3 asks for one error record when a probe of the parallel mode fails on its
  second page. The run below is such a case: the bucket listing answers a first page
  of two buckets with a token and raises on the second request. The bucket probe adds
  nothing to \<^verbatim>\<open>totals\<close> and the BigQuery probe of the same project completes, as the
  claim says; but \<^verbatim>\<open>errors_log\<close> stays empty. The exception is kept in the future and
  only counted in the local \<^verbatim>\<open>exceptions\<close>; \<^verbatim>\<open>error_print\<close> is not called for it.
\<close>

theorem pool_drops_probe_exception:
  "(case get_gcp_resources default_args
         (quiet_env\<lparr>services_listing :=
              Listing [Page (Some [''storage-api.googleapis.com'', ''bigquery.googleapis.com'']) No_token],
            buckets_listing := Listing [Page (Some [''b1'', ''b2'']) Token, Execute_raises (HttpError ''503'')],
            datasets_listing := Listing [Page (Some [''d1'']) No_token]\<rparr>)
         ''p1'' ''P1'' initial_state of
       (r, invoked, s) \<Rightarrow>
         (r, invoked, errors_log s, totals s ''Data Buckets'', totals s ''Data Warehouses'', totals_log s))
    = (None, [Call_buckets, Call_bigquery_datasets], [], 0, 1,
       [(''Data Warehouses [BigQuery]'', 1, ''P1'', [])])"
  by code_simp

text \<open>
  Claim C2 says that in debug mode a failure of the first probe stops the project and
  is raised to the caller. That holds when the failure is an exception of
  \<^verbatim>\<open>request.execute()\<close> (\<open>run_sequential_raises\<close>, and the second run below). It does
  not hold when \<^verbatim>\<open>build\<close> or the construction of the request raises: every probe
  catches that, records it and returns, in debug mode too. In the first run below the
  bucket probe fails that way; the BigQuery probe is called after it and
  \<^verbatim>\<open>get_gcp_resources\<close> returns.
\<close>

theorem debug_mode_swallows_request_failure:
  "(case get_gcp_resources (default_args\<lparr>debug_mode := True\<rparr>)
         (quiet_env\<lparr>services_listing :=
              Listing [Page (Some [''storage.googleapis.com'', ''bigquery.googleapis.com'']) No_token],
            buckets_listing := Request_fails (RequestError ''bad request''),
            datasets_listing := Listing [Page (Some [''d1'']) No_token]\<rparr>)
         ''p1'' ''P1'' initial_state of
       (r, invoked, s) \<Rightarrow> (r, invoked, errors_log s, totals s ''Data Warehouses''))
    = (None, [Call_buckets, Call_bigquery_datasets],
       [''ERROR: Project: p1 get_gcp_buckets() bad request''], 1)"
  by code_simp

lemma debug_mode_execute_failure:
  "(case get_gcp_resources (default_args\<lparr>debug_mode := True\<rparr>)
         (quiet_env\<lparr>services_listing :=
              Listing [Page (Some [''storage.googleapis.com'', ''bigquery.googleapis.com'']) No_token],
            buckets_listing := Listing [Execute_raises (HttpError ''503'')],
            datasets_listing := Listing [Page (Some [''d1'']) No_token]\<rparr>)
         ''p1'' ''P1'' initial_state of
       (r, invoked, s) \<Rightarrow> (r, invoked, errors_log s, totals s ''Data Warehouses''))
    = (Some (HttpError ''503''), [Call_buckets], [], 0)"
  by code_simp

section \<open>Configuration errors\<close>

lemma out_of_range_exits_with_status_1:
  "max_image_tags a < 1 \<or> max_image_tags a > 1000 \<or> max_workers a < 1 \<or> max_workers a > 1000
   \<Longrightarrow> \<exists>printed. script a w = Exited 1 printed"
  by (auto simp add: script_def check_args_def)

lemma out_of_range_example:
  "(case script (default_args\<lparr>max_workers := 1001\<rparr>) quiet_world of
      Exited status printed \<Rightarrow> Some (status, printed) | _ \<Rightarrow> None)
     = Some (1, [''ERROR: --max-workers 1001 out of range: [1 .. 1000]''])"
  by code_simp

text \<open>
  Claim C4 asks for a non-zero exit status on every configuration error. A tunable out
  of range ends the process with status 1 before \<^verbatim>\<open>main\<close> is entered
  (\<open>out_of_range_exits_with_status_1\<close>). A missing input file ends it before any
  project is scanned and after three lines that say what is missing, but through
  \<^verbatim>\<open>sys.exit()\<close> without an argument: the exit status is 0. Below, \<^verbatim>\<open>--projects\<close> and
  \<^verbatim>\<open>--exclude\<close> in a directory with neither file.
\<close>

theorem missing_file_exits_with_status_0:
  "(case script (default_args\<lparr>input_projects := True\<rparr>) quiet_world of
      Exited status printed \<Rightarrow> Some (status, printed) | _ \<Rightarrow> None)
     = Some (0,
        [''ERROR: get_gcp_projects_from_file() projects.txt does not exist.'',
         ''ERROR: get_gcp_projects_from_file() Create a file named projects.txt and add each GCP Project ID to scan, one per line.'',
         ''ERROR: get_gcp_projects_from_file() Exiting...''])
   \<and> (case script (default_args\<lparr>input_excluded_folders := True\<rparr>) quiet_world of
      Exited status printed \<Rightarrow> Some (status, printed) | _ \<Rightarrow> None)
     = Some (0,
        [''ERROR: get_excluded_folders_from_file() excluded-folders.txt does not exist.'',
         ''ERROR: get_excluded_folders_from_file() Create a file named excluded-folders.txt and add each GCP Folder ID to exclude, one per line.'',
         ''ERROR: get_excluded_folders_from_file() Exiting...''])"
  by code_simp

section \<open>The progress line\<close>










section \<open>Totals and the log of results\<close>

lemma record_result_totals:
  "totals (record_result e s) r = totals s r + increment_of e r"
  by (cases e) (auto simp add: add_total_def progress_print_def increment_of_def)

lemma record_result_log:
  "totals_log (record_result e s) = totals_log s @ [logged_row e]"
  by (cases e) (simp_all add: add_total_def progress_print_def)

lemma record_result_errors:
  "errors_log (record_result e s) = errors_log s"
  by (cases e) (simp_all add: add_total_def progress_print_def)

lemma fold_record_result_totals:
  "totals (fold record_result es s) r = totals s r + (\<Sum>e\<leftarrow>es. increment_of e r)"
  by (induction es arbitrary: s) (simp_all add: record_result_totals)

lemma fold_record_result_log:
  "totals_log (fold record_result es s) = totals_log s @ map logged_row es"
  by (induction es arbitrary: s) (simp_all add: record_result_log)

lemma sum_list_mset_cong:
  fixes f :: "'a \<Rightarrow> int"
  shows "mset xs = mset ys \<Longrightarrow> sum_list (map f xs) = sum_list (map f ys)"
  by (metis mset_map sum_mset_sum_list)

text \<open>
  Claim C1, as the code has it. A recorded result is one of the blocks of
  \<open>record_result\<close>: a row for the log and the increments paired with it. After any
  sequence of recorded results, \<^verbatim>\<open>totals[r]\<close> is its initial value plus the sum of the
  increments made to \<open>r\<close>; two sequences that record the same results in different
  orders end with the same \<^verbatim>\<open>totals\<close>, and with the same rows in the log up to order.
\<close>

theorem totals_sum_of_increments:
  "totals (fold record_result es s) r = totals s r + (\<Sum>e\<leftarrow>es. increment_of e r)
   \<and> (mset es = mset es' \<longrightarrow>
        totals (fold record_result es s) = totals (fold record_result es' s)
        \<and> mset (totals_log (fold record_result es s)) = mset (totals_log (fold record_result es' s)))"
proof (intro conjI impI)
  show "totals (fold record_result es s) r = totals s r + (\<Sum>e\<leftarrow>es. increment_of e r)"
    by (rule fold_record_result_totals)
next
  assume p: "mset es = mset es'"
  show "totals (fold record_result es s) = totals (fold record_result es' s)"
  proof
    fix k
    from p have "(\<Sum>e\<leftarrow>es. increment_of e k) = (\<Sum>e\<leftarrow>es'. increment_of e k)"
      by (rule sum_list_mset_cong)
    then show "totals (fold record_result es s) k = totals (fold record_result es' s) k"
      by (simp add: fold_record_result_totals)
  qed
  from p have "mset (map logged_row es) = mset (map logged_row es')"
    by simp
  then show "mset (totals_log (fold record_result es s)) = mset (totals_log (fold record_result es' s))"
    by (simp add: fold_record_result_log)
qed

theorem totals_sum_of_increments_witness:
  "totals (fold record_result [Compute_instances 3 2 1 ''P1'', GKE_hosts 4 ''P2''] initial_state)
      ''Non-OS Disks'' = 2
   \<and> mset [Compute_instances 3 2 1 ''P1'', GKE_hosts 4 ''P2'']
       = mset [GKE_hosts 4 ''P2'', Compute_instances 3 2 1 ''P1'']
   \<and> totals (fold record_result [Compute_instances 3 2 1 ''P1'', GKE_hosts 4 ''P2''] initial_state)
       = totals (fold record_result [GKE_hosts 4 ''P2'', Compute_instances 3 2 1 ''P1''] initial_state)
   \<and> mset (totals_log (fold record_result [Compute_instances 3 2 1 ''P1'', GKE_hosts 4 ''P2''] initial_state))
       = mset (totals_log (fold record_result [GKE_hosts 4 ''P2'', Compute_instances 3 2 1 ''P1''] initial_state))"
proof -
  let ?es = "[Compute_instances 3 2 1 ''P1'', GKE_hosts 4 ''P2'']"
  let ?es' = "[GKE_hosts 4 ''P2'', Compute_instances 3 2 1 ''P1'']"
  note T = totals_sum_of_increments [of ?es initial_state "''Non-OS Disks''" ?es']
  have p: "mset ?es = mset ?es'"
    by simp
  have a: "totals (fold record_result ?es initial_state) ''Non-OS Disks'' = 2"
    unfolding conjunct1 [OF T] by (simp add: increment_of_def initial_state_def)
  from conjunct2 [OF T] p
  have b: "totals (fold record_result ?es initial_state) = totals (fold record_result ?es' initial_state)
      \<and> mset (totals_log (fold record_result ?es initial_state))
          = mset (totals_log (fold record_result ?es' initial_state))"
    by (rule mp)
  show ?thesis
    by (intro conjI) (rule a p b [THEN conjunct1] b [THEN conjunct2])+
qed

text \<open>
  What the log holds is not what \<^verbatim>\<open>totals\<close> sums. The compute probe on a project with
  one virtual machine that has one data disk appends the single row
  \<^verbatim>\<open>['Virtual Machines [Compute]', 1, 'P1', '']\<close> and adds 1 to
  \<^verbatim>\<open>totals['Virtual Machines']\<close> and 1 to \<^verbatim>\<open>totals['Non-OS Disks']\<close>: no row has either
  key as its \<^verbatim>\<open>resource_type\<close>, so the sum of the counts of the recorded rows of type
  \<open>r\<close> is 0 for both.
\<close>

lemma compute_probe_rows_and_totals:
  "(case get_gce_instances_and_gke_instances default_args ''p1'' ''P1'' data_disk_listing initial_state of
      (r, s) \<Rightarrow>
        (r, totals_log s,
         totals s ''Non-OS Disks'', logged_sum ''Non-OS Disks'' (totals_log s),
         totals s ''Virtual Machines'', logged_sum ''Virtual Machines'' (totals_log s)))
     = (None, [(''Virtual Machines [Compute]'', 1, ''P1'', [])], 1, 0, 1, 0)"
  by code_simp

theorem totals_differ_from_logged_rows:
  "totals (snd (get_gce_instances_and_gke_instances default_args ''p1'' ''P1''
                  data_disk_listing initial_state)) ''Non-OS Disks''
     \<noteq> logged_sum ''Non-OS Disks''
          (totals_log (snd (get_gce_instances_and_gke_instances default_args ''p1'' ''P1''
                              data_disk_listing initial_state)))"
  by code_simp

section \<open>Counting virtual machines and GKE nodes\<close>

lemma for_each_append:
  "for_each f (xs @ ys) c =
     (case for_each f xs c of (Some ex, c') \<Rightarrow> (Some ex, c') | (None, c') \<Rightarrow> for_each f ys c')"
  by (induction xs arbitrary: c) (auto split: prod.splits option.splits)

lemma paginate_paged_returns:
  assumes "\<And>b acc. b \<in> set (pre @ [lst]) \<Longrightarrow> fst (f b acc) = None"
  shows "paginate f (paged pre lst rest) acc n =
           (None, fold (\<lambda>b a. snd (f b a)) (pre @ [lst]) acc, n + length pre + 1)"
  using assms
proof (induction pre arbitrary: acc n)
  case Nil
  from Nil [of lst acc] show ?case
    by (cases "f lst acc") (simp add: paged_def)
next
  case (Cons b pre)
  from Cons.prems [of b acc] have "fst (f b acc) = None" by simp
  then obtain acc' where fb: "f b acc = (None, acc')"
    by (cases "f b acc") simp
  have "paginate f (paged pre lst rest) acc' (Suc n) =
          (None, fold (\<lambda>b a. snd (f b a)) (pre @ [lst]) acc', Suc n + length pre + 1)"
    by (rule Cons.IH) (simp add: Cons.prems)
  then show ?case
    using fb by (simp add: paged_def)
qed

lemma count_disk_frame:
  "source_ok d \<Longrightarrow>
   fst (count_disk pid d c) = None
   \<and> instances_count (snd (count_disk pid d c)) = instances_count c
   \<and> gke_instances_count (snd (count_disk pid d c)) = gke_instances_count c
   \<and> totals (shared (snd (count_disk pid d c))) = totals (shared c)
   \<and> totals_log (shared (snd (count_disk pid d c))) = totals_log (shared c)"
  by (auto simp add: source_ok_def count_disk_def get_disk_image_details_def Let_def error_print_def
      split: image_lookup.splits option.splits if_splits)

lemma count_disks_frame:
  "list_all source_ok ds \<Longrightarrow>
   fst (for_each (count_disk pid) ds c) = None
   \<and> instances_count (snd (for_each (count_disk pid) ds c)) = instances_count c
   \<and> gke_instances_count (snd (for_each (count_disk pid) ds c)) = gke_instances_count c
   \<and> totals (shared (snd (for_each (count_disk pid) ds c))) = totals (shared c)
   \<and> totals_log (shared (snd (for_each (count_disk pid) ds c))) = totals_log (shared c)"
proof (induction ds arbitrary: c)
  case Nil
  then show ?case by simp
next
  case (Cons d ds)
  then have d: "source_ok d" and ds: "list_all source_ok ds" by simp_all
  obtain c' where cd: "count_disk pid d c = (None, c')"
    using count_disk_frame [OF d, of pid c] by (cases "count_disk pid d c") simp
  from count_disk_frame [OF d, of pid c] Cons.IH [OF ds, of c'] show ?case
    by (simp add: cd)
qed

lemma count_instance_skipped: "skipped i \<Longrightarrow> count_instance pid i c = (None, c)"
  by (simp add: count_instance_def)

lemma count_instance_frame:
  "sources_ok i \<Longrightarrow>
   fst (count_instance pid i c) = None
   \<and> instances_count (snd (count_instance pid i c)) =
       instances_count c + (if skipped i then 0 else 1)
   \<and> gke_instances_count (snd (count_instance pid i c)) =
       gke_instances_count c + (if \<not> skipped i \<and> is_gke_node i then 1 else 0)
   \<and> totals (shared (snd (count_instance pid i c))) = totals (shared c)
   \<and> totals_log (shared (snd (count_instance pid i c))) = totals_log (shared c)"
  by (auto simp add: sources_ok_def count_instance_def Let_def count_disks_frame
      split: option.splits if_splits)

lemma count_instances_frame:
  "list_all sources_ok is \<Longrightarrow>
   fst (for_each (count_instance pid) is c) = None
   \<and> instances_count (snd (for_each (count_instance pid) is c)) =
       instances_count c + int (length (filter (\<lambda>i. \<not> skipped i) is))
   \<and> gke_instances_count (snd (for_each (count_instance pid) is c)) =
       gke_instances_count c + int (length (filter (\<lambda>i. \<not> skipped i \<and> is_gke_node i) is))
   \<and> totals (shared (snd (for_each (count_instance pid) is c))) = totals (shared c)
   \<and> totals_log (shared (snd (for_each (count_instance pid) is c))) = totals_log (shared c)"
proof (induction "is" arbitrary: c)
  case Nil
  then show ?case by simp
next
  case (Cons i "is")
  then have i: "sources_ok i" and rest: "list_all sources_ok is" by simp_all
  obtain c' where ci: "count_instance pid i c = (None, c')"
    using count_instance_frame [OF i, of pid c] by (cases "count_instance pid i c") simp
  from count_instance_frame [OF i, of pid c] Cons.IH [OF rest, of c'] show ?case
    by (simp add: ci)
qed

lemma count_zones_flat:
  "for_each (count_zone pid) items c =
     for_each (count_instance pid)
       (concat (map (\<lambda>zone. case snd zone of None \<Rightarrow> [] | Some is \<Rightarrow> is) items)) c"
  by (induction items arbitrary: c)
     (auto simp add: count_zone_def for_each_append split: option.splits prod.splits)

lemma count_page_flat:
  "count_page pid body c = for_each (count_instance pid) (page_instances body) c"
  by (simp add: count_page_def page_instances_def count_zones_flat split: option.splits)

lemma report_totals:
  "totals (report a n e s) r = totals s r + (if n > 0 \<or> verbose_mode a then increment_of e r else 0)"
  by (simp add: report_def record_result_totals)

lemma count_pages_frame:
  "list_all sources_ok (listed_instances bodies) \<Longrightarrow>
   instances_count (fold (\<lambda>b a. snd (count_page pid b a)) bodies c) =
     instances_count c + int (length (filter (\<lambda>i. \<not> skipped i) (listed_instances bodies)))
   \<and> gke_instances_count (fold (\<lambda>b a. snd (count_page pid b a)) bodies c) =
     gke_instances_count c +
       int (length (filter (\<lambda>i. \<not> skipped i \<and> is_gke_node i) (listed_instances bodies)))
   \<and> totals (shared (fold (\<lambda>b a. snd (count_page pid b a)) bodies c)) = totals (shared c)
   \<and> totals_log (shared (fold (\<lambda>b a. snd (count_page pid b a)) bodies c)) = totals_log (shared c)"
proof (induction bodies arbitrary: c)
  case Nil
  then show ?case by (simp add: listed_instances_def)
next
  case (Cons b bodies)
  then have b: "list_all sources_ok (page_instances b)"
    and rest: "list_all sources_ok (listed_instances bodies)"
    by (simp_all add: listed_instances_def)
  from count_instances_frame [OF b, of pid c]
       Cons.IH [OF rest, of "snd (count_page pid b c)"]
  show ?case
    by (simp add: count_page_flat listed_instances_def)
qed

lemma count_page_returns:
  assumes "list_all sources_ok (listed_instances bodies)" and "b \<in> set bodies"
  shows "fst (count_page pid b c) = None"
proof -
  from assms have "list_all sources_ok (page_instances b)"
    by (auto simp add: listed_instances_def list_all_iff)
  from count_instances_frame [OF this, of pid c] show ?thesis
    by (simp add: count_page_flat)
qed

lemma skipped_iff:
  "skipped i \<longleftrightarrow>
     (\<exists>t. tags i = Some t \<and> map_of t ''Vendor'' = Some ''Databricks'')
     \<or> (\<exists>l. labels i = Some l \<and> ''databricks'' \<in> fst ` set l)"
  by (auto simp add: skipped_def tag_in_tags_def label_in_labels_def split: option.splits)

lemma gke_node_label_iff: "gke_node_label ls \<longleftrightarrow> ''goog-gke-node'' \<in> set ls"
  by (induction ls) auto

lemma is_gke_node_iff:
  "is_gke_node i \<longleftrightarrow> (\<exists>l. labels i = Some l \<and> ''goog-gke-node'' \<in> fst ` set l)"
  by (auto simp add: is_gke_node_def gke_node_label_iff split: option.splits)

lemma compute_probe_totals:
  assumes ok: "list_all sources_ok (listed_instances (pre @ [lst]))"
  shows "fst (get_gce_instances_and_gke_instances a pid pname (Listing (paged pre lst rest)) s) = None"
    and "totals (snd (get_gce_instances_and_gke_instances a pid pname (Listing (paged pre lst rest)) s))
           ''Virtual Machines'' =
         totals s ''Virtual Machines''
         + int (length (filter (\<lambda>i. \<not> skipped i) (listed_instances (pre @ [lst]))))"
    and "totals (snd (get_gce_instances_and_gke_instances a pid pname (Listing (paged pre lst rest)) s))
           ''Container Hosts'' =
         totals s ''Container Hosts''
         + int (length (filter (\<lambda>i. \<not> skipped i \<and> is_gke_node i) (listed_instances (pre @ [lst]))))"
    and "totals (snd (get_gce_instances_and_gke_instances a pid pname (Listing (paged pre lst rest)) s))
           ''Kubernetes Sensors'' =
         totals s ''Kubernetes Sensors''
         + int (length (filter (\<lambda>i. \<not> skipped i \<and> is_gke_node i) (listed_instances (pre @ [lst]))))"
proof -
  let ?c0 = "\<lparr>instances_count = 0, gke_instances_count = 0, non_os_disks_count = 0,
              linux_instances_count = 0, shared = s\<rparr>"
  let ?cF = "fold (\<lambda>b a. snd (count_page pid b a)) (pre @ [lst]) ?c0"
  let ?probe = "get_gce_instances_and_gke_instances a pid pname (Listing (paged pre lst rest)) s"
  have pg: "paginate (count_page pid) (paged pre lst rest) ?c0 0 = (None, ?cF, 0 + length pre + 1)"
    by (rule paginate_paged_returns) (rule count_page_returns [OF ok])
  show "fst ?probe = None"
    by (simp add: get_gce_instances_and_gke_instances_def open_listing_def pg)
  note fr = count_pages_frame [OF ok, of pid ?c0]
  have res: "snd ?probe =
       report a (gke_instances_count ?cF) (GKE_hosts (gke_instances_count ?cF) pname)
         (report a (instances_count ?cF)
            (Compute_instances (instances_count ?cF) (non_os_disks_count ?cF)
               (linux_instances_count ?cF) pname) (shared ?cF))"
    by (simp add: get_gce_instances_and_gke_instances_def open_listing_def pg)
  show "totals (snd ?probe) ''Virtual Machines'' =
         totals s ''Virtual Machines''
         + int (length (filter (\<lambda>i. \<not> skipped i) (listed_instances (pre @ [lst]))))"
    unfolding res using fr by (auto simp add: report_totals increment_of_def)
  show "totals (snd ?probe) ''Container Hosts'' =
         totals s ''Container Hosts''
         + int (length (filter (\<lambda>i. \<not> skipped i \<and> is_gke_node i) (listed_instances (pre @ [lst]))))"
    unfolding res using fr by (auto simp add: report_totals increment_of_def)
  show "totals (snd ?probe) ''Kubernetes Sensors'' =
         totals s ''Kubernetes Sensors''
         + int (length (filter (\<lambda>i. \<not> skipped i \<and> is_gke_node i) (listed_instances (pre @ [lst]))))"
    unfolding res using fr by (auto simp add: report_totals increment_of_def)
qed

text \<open>
  Claim C10. An instance is skipped exactly when it carries the tag \<^verbatim>\<open>Vendor\<close> with
  value \<^verbatim>\<open>Databricks\<close> or a label \<^verbatim>\<open>databricks\<close>, and then the probe leaves all its
  counters and the shared state as they are. On a listing that is read to its end
  without an exception, \<^verbatim>\<open>totals['Virtual Machines']\<close> grows by the number of
  instances that are not skipped, and \<^verbatim>\<open>totals['Container Hosts']\<close> and
  \<^verbatim>\<open>totals['Kubernetes Sensors']\<close> each grow by the number of those that have a label
  \<^verbatim>\<open>goog-gke-node\<close>: a GKE node counts as a virtual machine and as a container host.
\<close>

theorem compute_instance_totals:
  "(skipped i \<longleftrightarrow>
      (\<exists>t. tags i = Some t \<and> map_of t ''Vendor'' = Some ''Databricks'')
      \<or> (\<exists>l. labels i = Some l \<and> ''databricks'' \<in> fst ` set l))
   \<and> (is_gke_node i \<longleftrightarrow> (\<exists>l. labels i = Some l \<and> ''goog-gke-node'' \<in> fst ` set l))
   \<and> (skipped i \<longrightarrow> count_instance pid i c = (None, c))
   \<and> (list_all sources_ok (listed_instances (pre @ [lst])) \<longrightarrow>
        fst (get_gce_instances_and_gke_instances a pid pname (Listing (paged pre lst rest)) s) = None
        \<and> totals (snd (get_gce_instances_and_gke_instances a pid pname (Listing (paged pre lst rest)) s))
             ''Virtual Machines'' =
           totals s ''Virtual Machines''
           + int (length (filter (\<lambda>i. \<not> skipped i) (listed_instances (pre @ [lst]))))
        \<and> totals (snd (get_gce_instances_and_gke_instances a pid pname (Listing (paged pre lst rest)) s))
             ''Container Hosts'' =
           totals s ''Container Hosts''
           + int (length (filter (\<lambda>i. \<not> skipped i \<and> is_gke_node i) (listed_instances (pre @ [lst]))))
        \<and> totals (snd (get_gce_instances_and_gke_instances a pid pname (Listing (paged pre lst rest)) s))
             ''Kubernetes Sensors'' =
           totals s ''Kubernetes Sensors''
           + int (length (filter (\<lambda>i. \<not> skipped i \<and> is_gke_node i) (listed_instances (pre @ [lst])))))"
  using skipped_iff [of i] is_gke_node_iff [of i] count_instance_skipped [of i pid c]
    compute_probe_totals [of pre lst a pid pname rest s]
  by blast

theorem compute_instance_totals_witness:
  "skipped databricks_vm
   \<and> count_instance ''p1'' databricks_vm
        \<lparr>instances_count = 0, gke_instances_count = 0, non_os_disks_count = 0,
         linux_instances_count = 0, shared = initial_state\<rparr>
       = (None, \<lparr>instances_count = 0, gke_instances_count = 0, non_os_disks_count = 0,
                 linux_instances_count = 0, shared = initial_state\<rparr>)
   \<and> list_all sources_ok (listed_instances ([first_page] @ [last_page]))
   \<and> fst (get_gce_instances_and_gke_instances default_args ''p1'' ''P1''
             (Listing (paged [first_page] last_page [])) initial_state) = None
   \<and> totals (snd (get_gce_instances_and_gke_instances default_args ''p1'' ''P1''
                     (Listing (paged [first_page] last_page [])) initial_state))
        ''Virtual Machines'' = 2
   \<and> totals (snd (get_gce_instances_and_gke_instances default_args ''p1'' ''P1''
                     (Listing (paged [first_page] last_page [])) initial_state))
        ''Container Hosts'' = 1
   \<and> totals (snd (get_gce_instances_and_gke_instances default_args ''p1'' ''P1''
                     (Listing (paged [first_page] last_page [])) initial_state))
        ''Kubernetes Sensors'' = 1"
proof -
  let ?c = "\<lparr>instances_count = 0, gke_instances_count = 0, non_os_disks_count = 0,
             linux_instances_count = 0, shared = initial_state\<rparr>"
  note T = compute_instance_totals [of databricks_vm "''p1''" ?c "[first_page]" last_page
      default_args "''P1''" "[]" initial_state]
  have sk: "skipped databricks_vm"
    by code_simp
  have ok: "list_all sources_ok (listed_instances ([first_page] @ [last_page]))"
    by code_simp
  have vm: "int (length (filter (\<lambda>i. \<not> skipped i) (listed_instances ([first_page] @ [last_page])))) = 2"
    by code_simp
  have gke: "int (length (filter (\<lambda>i. \<not> skipped i \<and> is_gke_node i)
                             (listed_instances ([first_page] @ [last_page])))) = 1"
    by code_simp
  have z: "totals initial_state ''Virtual Machines'' = 0"
    "totals initial_state ''Container Hosts'' = 0"
    "totals initial_state ''Kubernetes Sensors'' = 0"
    by (simp_all add: initial_state_def)
  from T sk ok show ?thesis
    by (simp only: vm gke z) simp
qed

section \<open>Counting registry container images\<close>

lemma collect_repositories_paged:
  "paginate collect_repositories (paged pre lst rest) acc n =
     (None,
      acc @ map (\<lambda>item. last (split_str CHR ''/'' (repo_name item)))
              (filter (\<lambda>item. repo_format item = ''DOCKER'') (listed (pre @ [lst]))),
      n + length pre + 1)"
proof -
  let ?g = "\<lambda>body repositories. case body of
              None \<Rightarrow> repositories
            | Some items \<Rightarrow>
                repositories @ map (\<lambda>item. last (split_str CHR ''/'' (repo_name item)))
                                 (filter (\<lambda>item. repo_format item = ''DOCKER'') items)"
  have eq: "collect_repositories = (\<lambda>b a. (None, ?g b a))"
    by (intro ext) (simp add: collect_repositories_def split: option.splits)
  have fd: "fold ?g bs a =
      a @ map (\<lambda>item. last (split_str CHR ''/'' (repo_name item)))
            (filter (\<lambda>item. repo_format item = ''DOCKER'') (listed bs))" for bs a
    by (induction bs arbitrary: a) (simp_all add: listed_def split: option.splits)
  show ?thesis
    unfolding eq by (simp only: paginate_paged fd)
qed

lemma count_images_sum:
  "count_images a body n =
     n + (\<Sum>img\<leftarrow>(case body of None \<Rightarrow> [] | Some xs \<Rightarrow> xs). count_image a img)"
proof -
  have "fold (\<lambda>img k. k + count_image a img) xs k = k + (\<Sum>img\<leftarrow>xs. count_image a img)" for xs k
    by (induction xs arbitrary: k) simp_all
  then show ?thesis
    by (simp add: count_images_def split: option.splits)
qed

lemma images_loop_paged:
  "images_loop a pid (paged pre lst rest) n s =
     (None, n + (\<Sum>img\<leftarrow>listed (pre @ [lst]). count_image a img), s)"
  by (induction pre arbitrary: n)
     (simp_all add: paged_def listed_def count_images_sum Let_def)

lemma count_repository_paged:
  "count_repository a pid (\<lambda>nm. Listing (paged (ipre nm) (ilst nm) (irest nm))) nm (c, s) =
     (None, c + min (\<Sum>img\<leftarrow>listed (ipre nm @ [ilst nm]). count_image a img) 10000, s)"
  by (simp add: count_repository_def open_listing_def images_loop_paged)

lemma count_repositories_paged:
  "for_each (count_repository a pid (\<lambda>nm. Listing (paged (ipre nm) (ilst nm) (irest nm)))) nms (c, s) =
     (None,
      c + (\<Sum>nm\<leftarrow>nms. min (\<Sum>img\<leftarrow>listed (ipre nm @ [ilst nm]). count_image a img) 10000),
      s)"
  by (induction nms arbitrary: c) (simp_all add: count_repository_paged)

lemma gcr_images_paged:
  "get_gcp_gcr_images a pid pname region (Listing (paged pre lst rest))
       (\<lambda>nm. Listing (paged (ipre nm) (ilst nm) (irest nm))) s =
     (None,
      report a
        (\<Sum>nm\<leftarrow>map (\<lambda>item. last (split_str CHR ''/'' (repo_name item)))
                   (filter (\<lambda>item. repo_format item = ''DOCKER'') (listed (pre @ [lst]))).
            min (\<Sum>img\<leftarrow>listed (ipre nm @ [ilst nm]). count_image a img) 10000)
        (Registry_images
           (\<Sum>nm\<leftarrow>map (\<lambda>item. last (split_str CHR ''/'' (repo_name item)))
                      (filter (\<lambda>item. repo_format item = ''DOCKER'') (listed (pre @ [lst]))).
               min (\<Sum>img\<leftarrow>listed (ipre nm @ [ilst nm]). count_image a img) 10000)
           pname region) s)"
  by (simp add: get_gcp_gcr_images_def open_listing_def collect_repositories_paged
      count_repositories_paged)

lemma count_image_nonneg: "1 \<le> max_image_tags a \<Longrightarrow> 0 \<le> count_image a img"
  by (simp add: count_image_def split: option.splits)

lemma expected_registry_images_nonneg:
  "1 \<le> max_image_tags a \<Longrightarrow> 0 \<le> expected_registry_images a repositories images"
proof -
  assume m: "1 \<le> max_image_tags a"
  have img: "0 \<le> (\<Sum>img\<leftarrow>imgs. (case image_tags img of
                  Some tgs \<Rightarrow> min (max_image_tags a) (int (length tgs)) | None \<Rightarrow> 1))" for imgs
    using m by (induction imgs) (auto split: option.splits)
  have "0 \<le> (\<Sum>repo\<leftarrow>rs.
        min (\<Sum>img\<leftarrow>images (last (split_str CHR ''/'' (repo_name repo))).
               (case image_tags img of
                  Some tgs \<Rightarrow> min (max_image_tags a) (int (length tgs)) | None \<Rightarrow> 1))
            10000)" for rs
    by (induction rs) (simp_all add: img)
  then show ?thesis
    by (simp add: expected_registry_images_def)
qed

lemma gcr_images_expected:
  "get_gcp_gcr_images a pid pname region (Listing (paged pre lst rest))
       (\<lambda>nm. Listing (paged (ipre nm) (ilst nm) (irest nm))) s =
     (None,
      report a
        (expected_registry_images a (listed (pre @ [lst])) (\<lambda>nm. listed (ipre nm @ [ilst nm])))
        (Registry_images
           (expected_registry_images a (listed (pre @ [lst])) (\<lambda>nm. listed (ipre nm @ [ilst nm])))
           pname region) s)"
proof -
  have ci: "count_image a = (\<lambda>img. case image_tags img of
                  Some tgs \<Rightarrow> min (max_image_tags a) (int (length tgs)) | None \<Rightarrow> 1)"
    by (intro ext) (simp add: count_image_def)
  show ?thesis
    by (simp add: gcr_images_paged expected_registry_images_def ci comp_def)
qed

text \<open>
  Claim C9. On a repository listing that is read to its end, with an image listing read
  to its end for every DOCKER repository, the probe returns without an exception and
  reports the closed form \<open>expected_registry_images\<close>: only repositories of format
  DOCKER count; in a repository an image with a \<^verbatim>\<open>tags\<close> field adds the smaller of
  \<^verbatim>\<open>max_image_tags\<close> and its number of tags, an image without adds 1; the total of a
  repository is capped at 10000; the result is the sum of these capped totals. With
  \<^verbatim>\<open>max_image_tags\<close> at least 1, as the start-up check enforces, that sum is what
  \<^verbatim>\<open>totals['Registry Container Images']\<close> grows by.
\<close>

theorem registry_image_count:
  "get_gcp_gcr_images a pid pname region (Listing (paged pre lst rest))
       (\<lambda>nm. Listing (paged (ipre nm) (ilst nm) (irest nm))) s =
     (None,
      report a
        (expected_registry_images a (listed (pre @ [lst])) (\<lambda>nm. listed (ipre nm @ [ilst nm])))
        (Registry_images
           (expected_registry_images a (listed (pre @ [lst])) (\<lambda>nm. listed (ipre nm @ [ilst nm])))
           pname region) s)
   \<and> (1 \<le> max_image_tags a \<longrightarrow>
        totals (snd (get_gcp_gcr_images a pid pname region (Listing (paged pre lst rest))
                       (\<lambda>nm. Listing (paged (ipre nm) (ilst nm) (irest nm))) s))
          ''Registry Container Images'' =
        totals s ''Registry Container Images''
        + expected_registry_images a (listed (pre @ [lst])) (\<lambda>nm. listed (ipre nm @ [ilst nm])))"
proof (intro conjI impI)
  show "get_gcp_gcr_images a pid pname region (Listing (paged pre lst rest))
       (\<lambda>nm. Listing (paged (ipre nm) (ilst nm) (irest nm))) s =
     (None,
      report a
        (expected_registry_images a (listed (pre @ [lst])) (\<lambda>nm. listed (ipre nm @ [ilst nm])))
        (Registry_images
           (expected_registry_images a (listed (pre @ [lst])) (\<lambda>nm. listed (ipre nm @ [ilst nm])))
           pname region) s)"
    by (rule gcr_images_expected)
next
  assume "1 \<le> max_image_tags a"
  from expected_registry_images_nonneg [OF this,
      of "listed (pre @ [lst])" "\<lambda>nm. listed (ipre nm @ [ilst nm])"]
  show "totals (snd (get_gcp_gcr_images a pid pname region (Listing (paged pre lst rest))
                       (\<lambda>nm. Listing (paged (ipre nm) (ilst nm) (irest nm))) s))
          ''Registry Container Images'' =
        totals s ''Registry Container Images''
        + expected_registry_images a (listed (pre @ [lst])) (\<lambda>nm. listed (ipre nm @ [ilst nm]))"
    by (auto simp add: gcr_images_expected report_totals increment_of_def)
qed

theorem registry_image_count_witness:
  "get_gcp_gcr_images default_args ''p1'' ''P1'' ''us''
       (Listing (paged repository_pages repository_last_page []))
       (\<lambda>nm. Listing (paged (image_pages nm) (image_last_page nm) [])) initial_state =
     (None, report default_args 9 (Registry_images 9 ''P1'' ''us'') initial_state)
   \<and> 1 \<le> max_image_tags default_args
   \<and> totals (snd (get_gcp_gcr_images default_args ''p1'' ''P1'' ''us''
                     (Listing (paged repository_pages repository_last_page []))
                     (\<lambda>nm. Listing (paged (image_pages nm) (image_last_page nm) [])) initial_state))
        ''Registry Container Images'' = 9"
proof -
  note T = registry_image_count [of default_args "''p1''" "''P1''" "''us''" repository_pages
      repository_last_page "[]" image_pages image_last_page "\<lambda>_. []" initial_state]
  have e: "expected_registry_images default_args (listed (repository_pages @ [repository_last_page]))
             (\<lambda>nm. listed (image_pages nm @ [image_last_page nm])) = 9"
    by code_simp
  have m: "1 \<le> max_image_tags default_args"
    by (simp add: default_args_def)
  have z: "totals initial_state ''Registry Container Images'' = 0"
    by (simp add: initial_state_def)
  have a: "get_gcp_gcr_images default_args ''p1'' ''P1'' ''us''
       (Listing (paged repository_pages repository_last_page []))
       (\<lambda>nm. Listing (paged (image_pages nm) (image_last_page nm) [])) initial_state =
     (None, report default_args 9 (Registry_images 9 ''P1'' ''us'') initial_state)"
    using conjunct1 [OF T] unfolding e .
  have b: "totals (snd (get_gcp_gcr_images default_args ''p1'' ''P1'' ''us''
                     (Listing (paged repository_pages repository_last_page []))
                     (\<lambda>nm. Listing (paged (image_pages nm) (image_last_page nm) [])) initial_state))
        ''Registry Container Images'' = 9"
    using conjunct2 [OF T, THEN mp, OF m] unfolding e z by simp
  show ?thesis
    by (intro conjI) (rule a m b)+
qed

end
